theory Spec2Isabelle
  imports Complex_Main "HOL-Library.Sublist"
begin

section \<open>Python values used by the analyzers\<close>

text \<open>
  Text is a \<^typ>\<open>string\<close>: a list of 8-bit characters holding the UTF-8 encoding of the
  Python \<open>str\<close>. The glyphs of the reports are therefore three or four characters long.
  Every keyword the analyzers search for is plain ASCII, and \<open>lower\<close> changes the
  letters \<open>A\<close> to \<open>Z\<close> only, as \<open>str.lower\<close> does on ASCII text.
\<close>

definition lower_char :: "char \<Rightarrow> char" where
  "lower_char c =
     (case map_of (zip ''ABCDEFGHIJKLMNOPQRSTUVWXYZ'' ''abcdefghijklmnopqrstuvwxyz'') c of
        None \<Rightarrow> c
      | Some l \<Rightarrow> l)"

definition lower :: "string \<Rightarrow> string" where
  "lower s = map lower_char s"

text \<open>\<open>needle in haystack\<close> on strings: the needle occurs as a contiguous slice.\<close>

primrec py_in :: "string \<Rightarrow> string \<Rightarrow> bool" where
  "py_in n [] = (n = [])"
| "py_in n (c # cs) = (prefix n (c # cs) \<or> py_in n cs)"

text \<open>
  \<open>str.strip()\<close> removes white space from both ends. Every text it is applied to
  begins and ends with fixed ASCII text, so the ASCII white space is all that matters.
\<close>

definition is_space :: "char \<Rightarrow> bool" where
  "is_space c = ((of_char c :: nat) \<in> {9, 10, 11, 12, 13, 28, 29, 30, 31, 32})"

definition strip :: "string \<Rightarrow> string" where
  "strip s = rev (dropWhile is_space (rev (dropWhile is_space s)))"

text \<open>\<open>sep.join(xs)\<close>.\<close>

fun join :: "string \<Rightarrow> string list \<Rightarrow> string" where
  "join sep [] = []"
| "join sep [x] = x"
| "join sep (x # y # ys) = x @ sep @ join sep (y # ys)"

text \<open>Decimal rendering of integers, as \<open>str(n)\<close> and \<open>f"{n}"\<close> give it.\<close>

fun str_nat :: "nat \<Rightarrow> string" where
  "str_nat n =
     (if n < 10 then [''0123456789'' ! n]
      else str_nat (n div 10) @ [''0123456789'' ! (n mod 10)])"

definition str_int :: "int \<Rightarrow> string" where
  "str_int i = (if i < 0 then ''-'' @ str_nat (nat (- i)) else str_nat (nat i))"

text \<open>
  A measured time is a finite float; its exact value is a rational number. The format
  \<open>f"{x:.0f}"\<close> prints that value rounded to the nearest integer, ties to even, and keeps
  the sign of a negative value that rounds to zero.
\<close>

definition round_half_even :: "rat \<Rightarrow> int" where
  "round_half_even q =
     (let f = floor q; r = q - of_int f
      in if r < 1 / 2 then f else if 1 / 2 < r then f + 1 else if even f then f else f + 1)"

definition fmt_0f :: "rat \<Rightarrow> string" where
  "fmt_0f x =
     (if x < 0 then ''-'' @ str_nat (nat (round_half_even (- x)))
      else str_nat (nat (round_half_even x)))"

subsection \<open>Exceptions\<close>

text \<open>
  A computation that may raise returns \<open>Inl\<close> of the exception. Only subclasses of
  \<open>Exception\<close> are modelled; each carries the text \<open>str(e)\<close> yields.
  \<open>RequestsTimeout\<close> and \<open>RequestsConnectionError\<close> are the two classes of
  \<open>requests.exceptions\<close> the code names; an exception that is an instance of both is a
  \<open>RequestsTimeout\<close>, since that handler comes first.
\<close>

datatype py_exception =
    AttributeError string
  | KeyError string
  | ValueError string
  | RequestsTimeout string
  | RequestsConnectionError string
  | OtherException string

fun str_exc :: "py_exception \<Rightarrow> string" where
  "str_exc (AttributeError m) = m"
| "str_exc (KeyError m) = m"
| "str_exc (ValueError m) = m"
| "str_exc (RequestsTimeout m) = m"
| "str_exc (RequestsConnectionError m) = m"
| "str_exc (OtherException m) = m"

definition py_bind :: "py_exception + 'a \<Rightarrow> ('a \<Rightarrow> py_exception + 'b) \<Rightarrow> py_exception + 'b" where
  "py_bind m f = (case m of Inl e \<Rightarrow> Inl e | Inr v \<Rightarrow> f v)"

text \<open>\<open>try: body  except Exception as e: handler\<close>.\<close>

definition try_except :: "py_exception + 'a \<Rightarrow> (py_exception \<Rightarrow> py_exception + 'a) \<Rightarrow> py_exception + 'a" where
  "try_except body handler = (case body of Inl e \<Rightarrow> handler e | Inr v \<Rightarrow> Inr v)"

text \<open>The message of \<open>None.get(...)\<close>.\<close>

definition none_has_no_get :: py_exception where
  "none_has_no_get = AttributeError (CHR 0x27 # ''NoneType'' @ CHR 0x27 # '' object has no attribute '' @ CHR 0x27 # ''get'' @ [CHR 0x27])"

section \<open>The diagnostic record\<close>

text \<open>
  The dictionary \<open>result\<close> of \<open>analyze_url_connectivity\<close>. A key whose value is
  \<open>None\<close> is a field holding \<open>None\<close>: the key is present. The nested dictionaries
  have one constructor for each shape the probe stores.
\<close>

record certificate =
  subject :: "string option"
  issuer :: "string option"
  version :: "string option"
  serial_number :: "string option"
  not_before :: "string option"
  not_after :: "string option"

datatype dns_result =
    DnsSuccess string    \<comment> \<open>\<open>{'success': True, 'ip_address': ip}\<close>\<close>
  | DnsFailure string    \<comment> \<open>\<open>{'success': False, 'error': str(e)}\<close>\<close>

datatype port_result =
    PortChecked bool     \<comment> \<open>\<open>{'success': r == 0, 'port_open': r == 0}\<close>\<close>
  | PortError string     \<comment> \<open>\<open>{'success': False, 'error': str(e)}\<close>\<close>

datatype ssl_result =
    SslSuccess certificate   \<comment> \<open>\<open>{'success': True, 'subject': ..., ...}\<close>\<close>
  | SslFailure string        \<comment> \<open>\<open>{'success': False, 'error': str(e)}\<close>\<close>

datatype http_result =
    HttpStatus int string nat string
      \<comment> \<open>\<open>{'status_code', 'status_text', 'redirects', 'final_url'}\<close>\<close>
  | HttpError string         \<comment> \<open>\<open>{'error': ...}\<close>\<close>

record conn_data =
  url :: string
  hostname :: "string option"
  port :: nat
  scheme :: string
  port_test :: "port_result option"       \<comment> \<open>\<open>connectivity_tests.get('port')\<close>\<close>
  dns_resolution :: "dns_result option"
  ssl_info :: "ssl_result option"
  http_status :: "http_result option"
  response_time :: "rat option"           \<comment> \<open>\<open>{'milliseconds': x}\<close> or \<open>None\<close>\<close>
  errors :: "string list"

text \<open>
  What \<open>analyze_url_connectivity\<close> returns: the full record, or the three-key dictionary
  \<open>{'url', 'error', 'errors'}\<close> of its outer handler.
\<close>

datatype probe_result =
    Completed conn_data
  | AnalysisFailed string string "string list"

fun result_errors :: "probe_result \<Rightarrow> string list" where
  "result_errors (Completed r) = errors r"
| "result_errors (AnalysisFailed u e es) = es"

section \<open>The probe: \<open>analyze_url_connectivity\<close>\<close>

text \<open>
  The library and network calls are answers of the environment: what
  \<open>urllib.parse.urlparse\<close> returns (reading \<open>.port\<close> may raise \<open>ValueError\<close>),
  \<open>socket.gethostbyname\<close>, the socket and its \<open>connect_ex\<close>, the TLS handshake with
  \<open>getpeercert\<close>, and \<open>requests.get\<close> together with the milliseconds measured around it.
\<close>

record parsed_url =
  p_scheme :: string
  p_hostname :: "string option"
  p_port :: "py_exception + nat option"

record http_response =
  status_code :: int
  reason :: string
  history_len :: nat
  final_url :: string

text \<open>
  The analysis service answers a \<open>requests.post\<close> of a prompt and a context label with a
  status, a body and, where the body is a JSON object, the \<open>response\<close> and \<open>error\<close>
  keys of it. The value under \<open>response\<close> is handed on as it is: a string, or any other
  JSON value (\<open>null\<close>, a number, a list, an object), of which only the name of its
  Python type is kept. The value under \<open>error\<close> is only ever formatted into a message,
  so it is kept as the text it formats to.
\<close>

datatype json_value =
    JsonString string
  | JsonOther string

record json_body =
  response_field :: "json_value option"
  error_field :: "string option"

record ai_response =
  ai_status :: int
  ai_json :: "py_exception + json_body"
  ai_text :: string

record environment =
  urlparse :: "string \<Rightarrow> py_exception + parsed_url"
  gethostbyname :: "string option \<Rightarrow> py_exception + string"
  connect_ex :: "string option \<Rightarrow> nat \<Rightarrow> py_exception + int"
  getpeercert :: "string option \<Rightarrow> nat \<Rightarrow> py_exception + certificate"
  requests_get :: "string \<Rightarrow> py_exception + (http_response \<times> rat)"
  requests_post :: "string \<Rightarrow> string \<Rightarrow> py_exception + ai_response"

text \<open>\<open>parsed.port or (443 if parsed.scheme == 'https' else 80)\<close>: port 0 is falsy.\<close>

definition default_port :: "string \<Rightarrow> nat option \<Rightarrow> nat" where
  "default_port sch po =
     (case po of
        None \<Rightarrow> (if sch = ''https'' then 443 else 80)
      | Some n \<Rightarrow> (if n = 0 then (if sch = ''https'' then 443 else 80) else n))"

definition initial_result :: "string \<Rightarrow> parsed_url \<Rightarrow> nat option \<Rightarrow> conn_data" where
  "initial_result u p po =
     \<lparr>url = u, hostname = p_hostname p, port = default_port (p_scheme p) po,
      scheme = p_scheme p, port_test = None, dns_resolution = None, ssl_info = None,
      http_status = None, response_time = None, errors = []\<rparr>"

definition dns_resolution_test :: "environment \<Rightarrow> conn_data \<Rightarrow> py_exception + conn_data" where
  "dns_resolution_test env r =
     try_except
       (py_bind (gethostbyname env (hostname r))
          (\<lambda>ip. Inr (r\<lparr>dns_resolution := Some (DnsSuccess ip)\<rparr>)))
       (\<lambda>e. Inr (r\<lparr>dns_resolution := Some (DnsFailure (str_exc e)),
                     errors := errors r @ [''DNS Resolution failed: '' @ str_exc e]\<rparr>))"

definition port_connectivity_test :: "environment \<Rightarrow> conn_data \<Rightarrow> py_exception + conn_data" where
  "port_connectivity_test env r =
     try_except
       (py_bind (connect_ex env (hostname r) (port r))
          (\<lambda>connection_result. Inr (r\<lparr>port_test := Some (PortChecked (connection_result = 0))\<rparr>)))
       (\<lambda>e. Inr (r\<lparr>port_test := Some (PortError (str_exc e)),
                     errors := errors r @ [''Port connection failed: '' @ str_exc e]\<rparr>))"

definition ssl_certificate_test :: "environment \<Rightarrow> conn_data \<Rightarrow> py_exception + conn_data" where
  "ssl_certificate_test env r =
     (if scheme r = ''https'' then
        try_except
          (py_bind (getpeercert env (hostname r) (port r))
             (\<lambda>cert. Inr (r\<lparr>ssl_info := Some (SslSuccess cert)\<rparr>)))
          (\<lambda>e. Inr (r\<lparr>ssl_info := Some (SslFailure (str_exc e)),
                        errors := errors r @ [''SSL Certificate issue: '' @ str_exc e]\<rparr>))
      else Inr r)"

definition http_entry :: "http_response \<Rightarrow> string list" where
  "http_entry resp =
     (if status_code resp \<ge> 400
      then [''HTTP Error '' @ str_int (status_code resp) @ '': '' @ reason resp]
      else [])"

definition http_status_test :: "environment \<Rightarrow> conn_data \<Rightarrow> py_exception + conn_data" where
  "http_status_test env r =
     try_except
       (py_bind (requests_get env (url r))
          (\<lambda>(resp, ms). Inr (r\<lparr>
              http_status := Some (HttpStatus (status_code resp) (reason resp)
                                     (history_len resp) (final_url resp)),
              response_time := Some ms,
              errors := errors r @ http_entry resp\<rparr>)))
       (\<lambda>e. case e of
          RequestsTimeout m \<Rightarrow>
            Inr (r\<lparr>http_status := Some (HttpError ''Request timeout''),
                    errors := errors r @ [''Request timed out'']\<rparr>)
        | RequestsConnectionError m \<Rightarrow>
            Inr (r\<lparr>http_status := Some (HttpError ''Connection error''),
                    errors := errors r @ [''Connection error: '' @ str_exc e]\<rparr>)
        | _ \<Rightarrow>
            Inr (r\<lparr>http_status := Some (HttpError (str_exc e)),
                    errors := errors r @ [''HTTP request failed: '' @ str_exc e]\<rparr>))"

definition analyze_url_connectivity :: "environment \<Rightarrow> string \<Rightarrow> py_exception + probe_result" where
  "analyze_url_connectivity env u =
     try_except
       (py_bind (urlparse env u) (\<lambda>parsed.
        py_bind (p_port parsed) (\<lambda>po.
        py_bind (dns_resolution_test env (initial_result u parsed po)) (\<lambda>r1.
        py_bind (port_connectivity_test env r1) (\<lambda>r2.
        py_bind (ssl_certificate_test env r2) (\<lambda>r3.
        py_bind (http_status_test env r3) (\<lambda>r4.
        Inr (Completed r4))))))))
       (\<lambda>e. Inr (AnalysisFailed u (''Analysis failed: '' @ str_exc e) [str_exc e]))"

section \<open>Report text\<close>

subsection \<open>Glyphs, as UTF-8\<close>

definition newline :: string where "newline = [CHR 0x0A]"
definition apostrophe :: string where "apostrophe = [CHR 0x27]"
definition check_mark :: string where "check_mark = [CHR 0xE2, CHR 0x9C, CHR 0x85]"
definition cross_mark :: string where "cross_mark = [CHR 0xE2, CHR 0x9D, CHR 0x8C]"
definition white_circle :: string where "white_circle = [CHR 0xE2, CHR 0x9A, CHR 0xAA]"
definition warning_sign :: string where
  "warning_sign = [CHR 0xE2, CHR 0x9A, CHR 0xA0, CHR 0xEF, CHR 0xB8, CHR 0x8F]"
definition bullet :: string where "bullet = [CHR 0xE2, CHR 0x80, CHR 0xA2]"
definition magnifier :: string where "magnifier = [CHR 0xF0, CHR 0x9F, CHR 0x94, CHR 0x8D]"
definition siren :: string where "siren = [CHR 0xF0, CHR 0x9F, CHR 0x9A, CHR 0xA8]"
definition wrench :: string where "wrench = [CHR 0xF0, CHR 0x9F, CHR 0x94, CHR 0xA7]"
definition bar_chart :: string where "bar_chart = [CHR 0xF0, CHR 0x9F, CHR 0x93, CHR 0x8A]"
definition green_circle :: string where "green_circle = [CHR 0xF0, CHR 0x9F, CHR 0x9F, CHR 0xA2]"
definition yellow_circle :: string where "yellow_circle = [CHR 0xF0, CHR 0x9F, CHR 0x9F, CHR 0xA1]"
definition red_circle :: string where "red_circle = [CHR 0xF0, CHR 0x9F, CHR 0x94, CHR 0xB4]"
definition robot :: string where "robot = [CHR 0xF0, CHR 0x9F, CHR 0xA4, CHR 0x96]"
definition rocket :: string where "rocket = [CHR 0xF0, CHR 0x9F, CHR 0x9A, CHR 0x80]"
definition high_voltage :: string where "high_voltage = [CHR 0xE2, CHR 0x9A, CHR 0xA1]"
definition padlock :: string where "padlock = [CHR 0xF0, CHR 0x9F, CHR 0x94, CHR 0x92]"
definition shield :: string where
  "shield = [CHR 0xF0, CHR 0x9F, CHR 0x9B, CHR 0xA1, CHR 0xEF, CHR 0xB8, CHR 0x8F]"

subsection \<open>Reading the record\<close>

text \<open>\<open>if question:\<close> holds for a question that is neither \<open>None\<close> nor empty.\<close>

fun truthy :: "string option \<Rightarrow> bool" where
  "truthy None = False"
| "truthy (Some q) = (q \<noteq> [])"

text \<open>\<open>data.get('connectivity_tests', {}).get('port', {}).get('success')\<close>.\<close>

definition port_success :: "conn_data \<Rightarrow> bool" where
  "port_success d = (case port_test d of Some (PortChecked b) \<Rightarrow> b | _ \<Rightarrow> False)"

text \<open>
  \<open>data.get('response_time', {}).get('milliseconds', 0) if data.get('response_time') and
  data.get('response_time', {}).get('milliseconds') else 0\<close>.
\<close>

definition response_time_ms :: "conn_data \<Rightarrow> rat" where
  "response_time_ms d =
     (case response_time d of None \<Rightarrow> 0 | Some ms \<Rightarrow> (if ms \<noteq> 0 then ms else 0))"

section \<open>The fallback reasoner of \<open>devops-analyzer.py\<close>\<close>

subsection \<open>\<open>_generate_answer_only\<close>: the answer to a question\<close>

definition availability_answer :: "conn_data \<Rightarrow> string" where
  "availability_answer d =
     (let ms = response_time_ms d in
      (if ms > 1000 then
         ''Based on the current connectivity analysis, your service is experiencing '' @
         ''slower response times ('' @ fmt_0f ms @ ''ms), which can impact availability. '' @
         ''To improve availability, you should implement caching strategies at multiple '' @
         ''levels (application, database, and CDN) to reduce latency. ''
       else
         ''Your service is currently performing well with a response time of '' @ fmt_0f ms @
         ''ms. '') @
      (if ssl_info d = None then
         ''However, you'' @ apostrophe @
         ''re currently using HTTP, which poses security risks and can impact '' @
         ''availability. Upgrading to HTTPS is critical for both security and '' @
         ''reliability, as it ensures encrypted connections and prevents potential '' @
         ''man-in-the-middle attacks. ''
       else []) @
      (if errors d \<noteq> [] then
         (let error_list = join ''; '' (take 2 (errors d)) in
          ''Additionally, there are some issues that need attention: '' @ error_list @ ''. '' @
          ''These should be addressed to ensure stable service availability. '')
       else
         ''The connectivity tests show no critical issues detected, indicating your '' @
         ''service is stable. '') @
      ''To further enhance availability, consider deploying across multiple '' @
      ''Availability Zones (AZs) to ensure redundancy and fault tolerance. '' @
      ''Setting up comprehensive health checks and monitoring alerts will help you '' @
      ''proactively identify and resolve issues before they impact users. '' @
      ''Implementing proper load balancing ensures traffic is distributed evenly '' @
      ''across your infrastructure, and auto-scaling based on demand patterns will '' @
      ''help maintain performance during traffic spikes.'')"

definition very_slow_answer :: "rat \<Rightarrow> string" where
  "very_slow_answer ms =
     ''Your service is experiencing very slow response times ('' @ fmt_0f ms @
     ''ms), which significantly impacts user experience. '' @
     ''This could be due to high server load, inefficient database queries, or lack '' @
     ''of caching. '' @
     ''I recommend checking your server resource utilization (CPU, memory, and '' @
     ''network), implementing caching at multiple levels (application cache, '' @
     ''database query cache, and CDN), and considering a Content Delivery Network '' @
     ''(CDN) to serve static content from locations closer to your users.''"

definition slow_answer :: "rat \<Rightarrow> string" where
  "slow_answer ms =
     ''Your service response time is slow ('' @ fmt_0f ms @ ''ms) and could be improved. '' @
     ''This may be caused by server resource constraints or lack of optimization. '' @
     ''I suggest checking server load and resource utilization, implementing caching '' @
     ''strategies, and considering a CDN to improve performance, especially for '' @
     ''static assets.''"

definition acceptable_answer :: "rat \<Rightarrow> string" where
  "acceptable_answer ms =
     ''Your service is performing well with an acceptable response time of '' @ fmt_0f ms @
     ''ms. '' @
     ''This indicates good performance, but you can still optimize further by '' @
     ''implementing caching and ensuring your infrastructure is properly scaled for '' @
     ''your traffic patterns.''"

definition unmeasured_answer :: string where
  "unmeasured_answer =
     ''Unfortunately, I couldn'' @ apostrophe @
     ''t measure the response time during the connectivity test. '' @
     ''This could indicate network issues or the service may be timing out. '' @
     ''I recommend checking your server logs, network connectivity, and ensuring '' @
     ''your service is properly configured and responding to requests.''"

definition performance_answer :: "conn_data \<Rightarrow> string" where
  "performance_answer d =
     (let ms = response_time_ms d in
      if ms > 0 then
        (if ms > 2000 then very_slow_answer ms
         else if ms > 1000 then slow_answer ms
         else acceptable_answer ms)
      else unmeasured_answer)"

definition valid_certificate_answer :: string where
  "valid_certificate_answer =
     ''Your website is properly secured with a valid SSL certificate configured '' @
     ''correctly. '' @
     ''This means your connections are encrypted using HTTPS, which protects data in '' @
     ''transit between clients and your server. '' @
     ''Your SSL certificate is valid and properly configured, providing both '' @
     ''security and trust for your users.''"

definition plain_http_answer :: string where
  "plain_http_answer =
     ''Your website is currently using HTTP, which is a critical security concern. '' @
     ''All data transmitted between users and your server is unencrypted, making it '' @
     ''vulnerable to interception and man-in-the-middle attacks. '' @
     ''I strongly recommend upgrading to HTTPS immediately by obtaining an SSL '' @
     ''certificate (you can use free certificates from Let'' @ apostrophe @ ''s Encrypt). '' @
     ''Additionally, implement HTTPS redirects to automatically send HTTP traffic to '' @
     ''HTTPS, and add security headers like HSTS (HTTP Strict Transport Security) '' @
     ''and CSP (Content Security Policy) to further enhance your security posture.''"

definition certificate_issue_answer :: string where
  "certificate_issue_answer =
     ''There are SSL certificate issues detected with your HTTPS configuration. '' @
     ''This could mean the certificate is expired, invalid, or misconfigured. '' @
     ''You should fix this immediately as it can cause browser warnings for your '' @
     ''users and potentially expose security vulnerabilities.''"

definition security_answer :: "conn_data \<Rightarrow> string" where
  "security_answer d =
     (case ssl_info d of
        Some (SslSuccess cert) \<Rightarrow> valid_certificate_answer
      | None \<Rightarrow> plain_http_answer
      | Some (SslFailure err) \<Rightarrow> certificate_issue_answer)"

definition issues_answer :: "conn_data \<Rightarrow> string" where
  "issues_answer d =
     (if errors d \<noteq> [] then
        (let error_list = join newline (map (\<lambda>error. ''  - '' @ error) (take 5 (errors d))) in
         ''During the connectivity analysis, I found several issues that need attention:'' @
         newline @ error_list @ newline @
         ''These issues should be investigated and resolved to ensure your service '' @
         ''operates correctly. '' @
         ''Check your server logs, review your configuration, and verify that all '' @
         ''required services are running properly.'')
      else
        ''Based on the connectivity tests performed, no critical issues were detected '' @
        ''with your service. '' @
        ''The DNS resolution is working, the required ports are open, and the service '' @
        ''is responding correctly. '' @
        ''However, I recommend regularly monitoring your service and performing '' @
        ''periodic checks to maintain this healthy state.'') @
     (case http_status d of
        Some (HttpStatus status status_text redirects final) \<Rightarrow>
          (if status \<ge> 400 then
             '' Additionally, there'' @ apostrophe @ ''s an HTTP error ('' @ str_int status @
             '') being returned, which indicates the service is encountering issues. '' @
             ''You should check your service logs and application error handling to identify '' @
             ''and resolve the root cause.''
           else [])
      | _ \<Rightarrow> [])"

text \<open>
  \<open>parsed_url = urllib.parse.urlparse(data['url'])\<close> and
  \<open>domain = parsed_url.hostname or data['url']\<close>.
\<close>

definition domain_of :: "environment \<Rightarrow> conn_data \<Rightarrow> py_exception + string" where
  "domain_of env d =
     py_bind (urlparse env (url d)) (\<lambda>parsed_url.
       Inr (case p_hostname parsed_url of
              None \<Rightarrow> url d
            | Some h \<Rightarrow> (if h \<noteq> [] then h else url d)))"

definition identity_answer :: "string \<Rightarrow> string" where
  "identity_answer domain =
     (if py_in ''google'' (lower domain) then
        ''This website is Google'' @ apostrophe @ ''s search engine and technology platform. '' @
        ''Google provides a wide range of services including web search, email (Gmail), '' @
        ''cloud computing services (Google Cloud Platform), productivity tools (Google '' @
        ''Workspace), and various other online tools and services. '' @
        ''The website is accessible and responding correctly based on the connectivity '' @
        ''tests.''
      else if py_in ''amazon'' (lower domain) \<or> py_in ''aws'' (lower domain) then
        ''This is an Amazon Web Services (AWS) endpoint providing cloud infrastructure '' @
        ''services. '' @
        ''AWS offers a comprehensive suite of cloud computing services including load '' @
        ''balancers for traffic distribution, compute resources (EC2, Lambda), storage '' @
        ''solutions (S3, EBS), networking services (VPC, CloudFront), and many other '' @
        ''managed services. '' @
        ''This endpoint appears to be part of AWS'' @ apostrophe @
        ''s infrastructure for managing and delivering cloud services.''
      else if py_in ''microsoft'' (lower domain) \<or> py_in ''azure'' (lower domain) then
        ''This is a Microsoft Azure service endpoint providing cloud computing services. '' @
        ''Azure is Microsoft'' @ apostrophe @
        ''s cloud platform offering infrastructure as a service (IaaS), platform as a '' @
        ''service (PaaS), and software as a service (SaaS) solutions. '' @
        ''It provides services for computing, storage, networking, databases, AI, and '' @
        ''other enterprise solutions.''
      else if py_in ''github'' (lower domain) then
        ''This is GitHub, a web-based platform for version control and software '' @
        ''development collaboration. '' @
        ''GitHub provides hosting for Git repositories, code collaboration tools, issue '' @
        ''tracking, pull requests, and various integrations for software development '' @
        ''workflows. '' @
        ''It'' @ apostrophe @
        ''s widely used by developers and organizations for managing source code and '' @
        ''collaborative software development.''
      else if py_in ''kubernetes'' (lower domain) \<or> py_in ''k8s'' (lower domain) then
        ''This is a Kubernetes service endpoint providing container orchestration and '' @
        ''management capabilities. '' @
        ''Kubernetes is an open-source platform for automating deployment, scaling, and '' @
        ''management of containerized applications. '' @
        ''It helps manage clusters of containers across multiple hosts and provides '' @
        ''features like automatic scaling, service discovery, and load balancing.''
      else if py_in ''localhost'' (lower domain) \<or> py_in ''127.0.0.1'' (lower domain) then
        ''This is a localhost or local network endpoint, typically used for local '' @
        ''development or internal services. '' @
        ''Localhost refers to the current computer being used, and services running on '' @
        ''localhost are typically only accessible from the same machine. '' @
        ''This is commonly used during development and testing phases before deploying '' @
        ''services to production environments.''
      else if suffix ''.svc.cluster.local'' domain then
        ''This is a Kubernetes internal service endpoint within a cluster. '' @
        ''Services with the '' @ apostrophe @ ''.svc.cluster.local'' @ apostrophe @
        '' domain are internal Kubernetes services that are accessible only within the '' @
        ''cluster. '' @
        ''These are used for service discovery and communication between different '' @
        ''components of applications running in the Kubernetes cluster.''
      else if py_in ''elb.amazonaws.com'' (lower domain) \<or> py_in ''alb'' (lower domain) then
        ''This is an AWS Elastic Load Balancer (ALB) or Application Load Balancer '' @
        ''endpoint. '' @
        ''Load balancers are used to distribute incoming traffic across multiple '' @
        ''targets (such as EC2 instances, containers, or IP addresses) to ensure high '' @
        ''availability and fault tolerance. '' @
        ''They help improve the availability and scalability of your applications by '' @
        ''automatically routing traffic to healthy targets and handling traffic spikes.''
      else if py_in ''cloudfront.net'' (lower domain) then
        ''This is an AWS CloudFront CDN (Content Delivery Network) endpoint. '' @
        ''CloudFront is a global content delivery network that speeds up distribution '' @
        ''of static and dynamic web content by caching content at edge locations closer '' @
        ''to users. '' @
        ''It helps reduce latency and improve performance for users accessing your '' @
        ''content from different geographic locations around the world.''
      else
        ''Based on the connectivity tests performed, this website ('' @ domain @
        '') is online and responding correctly. '' @
        ''The domain is resolving properly, the required ports are open, and the '' @
        ''service is accessible. '' @
        ''However, to determine the specific purpose or functionality of this website, '' @
        ''you would need to visit the URL directly in a browser or consult the website'' @
        apostrophe @
        ''s documentation, as the connectivity tests only verify network accessibility, '' @
        ''not the actual content or services provided.'')"

text \<open>
  The last branch reads \<open>data.get('http_status', {}).get('status_code')\<close> and
  \<open>data.get('response_time', {}).get('milliseconds')\<close>: a key that is present with the
  value \<open>None\<close> yields \<open>None\<close>, not the default, and \<open>None.get\<close> raises.
\<close>

definition general_answer :: "conn_data \<Rightarrow> string \<Rightarrow> py_exception + string" where
  "general_answer d domain =
     py_bind
       (case http_status d of
          None \<Rightarrow> Inl none_has_no_get
        | Some (HttpError err) \<Rightarrow> Inr []
        | Some (HttpStatus status status_text redirects final) \<Rightarrow>
            Inr (if status = 200 then
                   ''The website ('' @ domain @ '') is currently online and accessible. ''
                 else if status \<noteq> 0 then
                   ''The website is returning HTTP status '' @ str_int status @ '' ('' @
                   status_text @ ''). ''
                 else []))
       (\<lambda>status_part.
     py_bind
       (case response_time d of
          None \<Rightarrow> Inl none_has_no_get
        | Some rt \<Rightarrow>
            Inr (if rt \<noteq> 0 then
                   (if rt < 500 then
                      ''The service is performing excellently with a response time of '' @
                      fmt_0f rt @ ''ms, which indicates very good performance. ''
                    else if rt < 1000 then
                      ''The service has good performance with a response time of '' @
                      fmt_0f rt @ ''ms. ''
                    else
                      ''The response time is '' @ fmt_0f rt @
                      ''ms, which could be improved with optimization techniques. '')
                 else []))
       (\<lambda>time_part.
     Inr (status_part @ time_part @
          ''To maintain and improve service quality, I recommend monitoring performance '' @
          ''and availability metrics, implementing proper logging and alerting systems, '' @
          ''and conducting regular security assessments. '' @
          (if ssl_info d = None then
             ''Additionally, upgrading to HTTPS would significantly improve security by '' @
             ''encrypting all data transmitted between users and your server.''
           else []))))"

text \<open>The \<open>if\<close>/\<open>elif\<close> chain over \<open>question.lower()\<close>.\<close>

definition answer_body :: "environment \<Rightarrow> conn_data \<Rightarrow> string \<Rightarrow> py_exception + string" where
  "answer_body env d question =
     (let question_lower = lower question in
      if py_in ''availability'' question_lower \<or> py_in ''improve'' question_lower
         \<or> py_in ''optimiz'' question_lower then
        Inr (availability_answer d)
      else if py_in ''slow'' question_lower \<or> py_in ''performance'' question_lower then
        Inr (performance_answer d)
      else if py_in ''secure'' question_lower \<or> py_in ''security'' question_lower
         \<or> py_in ''safe'' question_lower \<or> py_in ''trust'' question_lower
         \<or> py_in ''certificate'' question_lower then
        Inr (security_answer d)
      else if py_in ''error'' question_lower \<or> py_in ''issue'' question_lower
         \<or> py_in ''problem'' question_lower then
        Inr (issues_answer d)
      else if py_in ''what'' question_lower
         \<and> (py_in ''use'' question_lower \<or> py_in ''purpose'' question_lower
              \<or> py_in ''is'' question_lower) then
        py_bind (domain_of env d) (\<lambda>domain. Inr (identity_answer domain))
      else
        py_bind (domain_of env d) (general_answer d))"

definition generate_answer_only :: "environment \<Rightarrow> conn_data \<Rightarrow> string \<Rightarrow> string" where
  "generate_answer_only env d question =
     (case answer_body env d question of
        Inr answer \<Rightarrow>
          (if answer \<noteq> [] then strip answer
           else ''I couldn'' @ apostrophe @
                ''t provide a specific answer to your question based on the available data.'')
      | Inl e \<Rightarrow> ''Error generating answer: '' @ str_exc e)"

subsection \<open>\<open>_generate_url_fallback\<close>: the full report\<close>

text \<open>The argument \<open>now\<close> is the text of \<open>datetime.now().isoformat()\<close>.\<close>

definition report_header :: "string \<Rightarrow> conn_data \<Rightarrow> string" where
  "report_header now d =
     newline @ ''# URL Analysis Report'' @ newline @ newline @ ''**URL:** '' @ url d @
     newline @ ''**Analyzed:** '' @ now @ newline @ newline @ ''## '' @ magnifier @
     '' Test Results'' @ newline @ newline @ ''### Connectivity Tests'' @ newline"

definition dns_line :: "conn_data \<Rightarrow> py_exception + string" where
  "dns_line d =
     (case dns_resolution d of
        None \<Rightarrow> Inl none_has_no_get
      | Some (DnsSuccess ip_address) \<Rightarrow>
          Inr (check_mark @ '' **DNS Resolution:** '' @ ip_address @ newline)
      | Some (DnsFailure err) \<Rightarrow>
          Inr (cross_mark @ '' **DNS Resolution:** Failed'' @ newline))"

definition port_line :: "conn_data \<Rightarrow> string" where
  "port_line d =
     (if port_success d then
        check_mark @ '' **Port '' @ str_nat (port d) @ '':** Open'' @ newline
      else
        cross_mark @ '' **Port '' @ str_nat (port d) @ '':** Closed or blocked'' @ newline)"

definition ssl_line :: "conn_data \<Rightarrow> string" where
  "ssl_line d =
     (case ssl_info d of
        Some (SslSuccess cert) \<Rightarrow>
          check_mark @ '' **SSL Certificate:** Valid'' @ newline
      | Some (SslFailure err) \<Rightarrow>
          cross_mark @ '' **SSL Certificate:** Invalid or expired'' @ newline
      | None \<Rightarrow>
          white_circle @ '' **SSL Certificate:** Not applicable (HTTP)'' @ newline)"

definition http_line :: "conn_data \<Rightarrow> string" where
  "http_line d =
     (case http_status d of
        Some (HttpStatus status status_text redirects final) \<Rightarrow>
          (if status \<noteq> 0 then
             (if 200 \<le> status \<and> status < 300 then check_mark else cross_mark) @
             '' **HTTP Status:** '' @ str_int status @ '' '' @ status_text @ newline
           else
             cross_mark @ '' **HTTP Status:** Failed to retrieve'' @ newline)
      | Some (HttpError err) \<Rightarrow>
          (if err \<noteq> [] then
             cross_mark @ '' **HTTP Status:** '' @ err @ newline
           else
             cross_mark @ '' **HTTP Status:** Failed to retrieve'' @ newline)
      | None \<Rightarrow>
          cross_mark @ '' **HTTP Status:** Failed to retrieve'' @ newline)"

definition response_time_line :: "conn_data \<Rightarrow> string" where
  "response_time_line d =
     (case response_time d of
        Some rt \<Rightarrow>
          (if rt \<noteq> 0 then
             (if rt < 1000 then check_mark else warning_sign) @ '' **Response Time:** '' @
             fmt_0f rt @ ''ms'' @ newline
           else
             cross_mark @ '' **Response Time:** Failed to measure'' @ newline)
      | None \<Rightarrow>
          cross_mark @ '' **Response Time:** Failed to measure'' @ newline)"

definition issues_found :: "conn_data \<Rightarrow> string" where
  "issues_found d =
     newline @ ''## '' @ siren @ '' Issues Found'' @ newline @
     (if errors d \<noteq> [] then
        concat (map (\<lambda>error. bullet @ '' '' @ error @ newline) (errors d))
      else
        ''No critical issues detected.'' @ newline)"

definition troubleshooting_steps :: string where
  "troubleshooting_steps =
     newline @ ''## '' @ wrench @ '' Troubleshooting Steps'' @ newline @ newline @
     ''1. **Check connectivity** - Verify network access to the target'' @ newline @
     ''2. **Verify DNS** - Ensure domain resolution is working'' @ newline @
     ''3. **Test ports** - Confirm required ports are open'' @ newline @
     ''4. **Check SSL** - Validate certificate for HTTPS sites'' @ newline @
     ''5. **DNS settings** - Verify DNS resolution'' @ newline @
     ''6. **Service status** - Check if the target service is running'' @ newline @ newline @
     ''## '' @ bar_chart @ '' Priority Assessment'' @ newline"

text \<open>Lines 535 to 541: the tier is chosen from the list of errors alone.\<close>

definition priority_assessment :: "string list \<Rightarrow> string" where
  "priority_assessment errs =
     (if errs = [] then
        green_circle @ '' **Priority: Low** - No critical issues'' @ newline
      else if length errs \<le> 2 then
        yellow_circle @ '' **Priority: Medium** - Some issues detected'' @ newline
      else
        red_circle @ '' **Priority: High** - Multiple critical issues'' @ newline)"

definition report_footer :: string where
  "report_footer =
     newline @ newline @ ''---'' @ newline @
     ''*This analysis was generated automatically. For AI-powered insights, ensure '' @
     ''the analysis service is available.*'' @ newline"

definition full_report :: "string \<Rightarrow> conn_data \<Rightarrow> py_exception + string" where
  "full_report now d =
     py_bind (Inr (report_header now d)) (\<lambda>header.
     py_bind (dns_line d) (\<lambda>dns.
     Inr (header @ dns @ port_line d @ ssl_line d @ http_line d @ response_time_line d
          @ issues_found d @ troubleshooting_steps @ priority_assessment (errors d)
          @ report_footer)))"

definition data_keys :: string where
  "data_keys =
     ''['' @ apostrophe @ ''url'' @ apostrophe @ '', '' @ apostrophe @ ''hostname'' @
     apostrophe @ '', '' @ apostrophe @ ''port'' @ apostrophe @ '', '' @ apostrophe @
     ''scheme'' @ apostrophe @ '', '' @ apostrophe @ ''connectivity_tests'' @ apostrophe @
     '', '' @ apostrophe @ ''dns_resolution'' @ apostrophe @ '', '' @ apostrophe @
     ''ssl_info'' @ apostrophe @ '', '' @ apostrophe @ ''http_status'' @ apostrophe @ '', '' @
     apostrophe @ ''response_time'' @ apostrophe @ '', '' @ apostrophe @ ''errors'' @
     apostrophe @ '']''"

definition error_report :: "string \<Rightarrow> conn_data \<Rightarrow> string option \<Rightarrow> py_exception \<Rightarrow> string" where
  "error_report now d q e =
     (let question = (case q of None \<Rightarrow> ''None'' | Some s \<Rightarrow> s) in
      newline @ ''# URL Analysis Report - Error'' @ newline @ newline @ ''**URL:** '' @ url d @
      newline @ ''**Analyzed:** '' @ now @ newline @ newline @ ''## '' @ cross_mark @
      '' Analysis Error'' @ newline @ newline @
      ''An error occurred while generating the analysis:'' @ newline @ newline @
      ''**Error:** '' @ str_exc e @ newline @ newline @ ''**Debug Info:**'' @ newline @
      ''- Data keys: '' @ data_keys @ newline @ ''- Question: '' @ question @ newline @
      newline @ ''---'' @ newline @ newline @
      ''*This analysis was generated automatically with fallback error handling.*'' @ newline)"

definition generate_url_fallback ::
    "environment \<Rightarrow> string \<Rightarrow> conn_data \<Rightarrow> string option \<Rightarrow> string" where
  "generate_url_fallback env now d question =
     (case (case question of
              None \<Rightarrow> full_report now d
            | Some q \<Rightarrow>
                (if q \<noteq> [] then Inr (generate_answer_only env d q) else full_report now d)) of
        Inr analysis \<Rightarrow> analysis
      | Inl e \<Rightarrow> error_report now d question e)"

text \<open>\<open>generate_fallback_analysis\<close> with \<open>analysis_type == 'url'\<close>.\<close>

definition generate_fallback_analysis ::
    "environment \<Rightarrow> string \<Rightarrow> conn_data \<Rightarrow> string option \<Rightarrow> string" where
  "generate_fallback_analysis env now d question = generate_url_fallback env now d question"

section \<open>The analysis service\<close>

subsection \<open>The summary and the prompt: \<open>_create_url_prompt\<close>\<close>

text \<open>
  The statements that build \<open>summary\<close> are the same in \<open>_create_url_prompt\<close> of
  \<open>devops-analyzer.py\<close> and in \<open>get_ai_analysis\<close> of \<open>analyze_url.py\<close> and of
  \<open>web_interface.py\<close>. Each check reads \<open>data.get(key, {}).get(...)\<close>; where the key
  is present with the value \<open>None\<close>, \<open>dict.get\<close> returns that \<open>None\<close> and the
  second \<open>get\<close> raises \<open>AttributeError\<close>.
\<close>

definition dns_summary :: "conn_data \<Rightarrow> py_exception + string" where
  "dns_summary d =
     (case dns_resolution d of
        None \<Rightarrow> Inl none_has_no_get
      | Some (DnsSuccess ip_address) \<Rightarrow>
          Inr (check_mark @ '' DNS resolves to '' @ ip_address)
      | Some (DnsFailure err) \<Rightarrow>
          Inr (cross_mark @ '' DNS resolution failed''))"

definition port_summary :: "conn_data \<Rightarrow> string" where
  "port_summary d =
     (if port_success d then
        check_mark @ '' Port '' @ str_nat (port d) @ '' is open''
      else
        cross_mark @ '' Port '' @ str_nat (port d) @ '' is closed or blocked'')"

definition ssl_summary :: "conn_data \<Rightarrow> py_exception + string" where
  "ssl_summary d =
     (case ssl_info d of
        None \<Rightarrow> Inl none_has_no_get
      | Some (SslSuccess cert) \<Rightarrow>
          Inr (check_mark @ '' SSL certificate is valid'')
      | Some (SslFailure err) \<Rightarrow>
          Inr (cross_mark @ '' SSL certificate issue detected''))"

definition http_summary :: "conn_data \<Rightarrow> py_exception + string list" where
  "http_summary d =
     (case http_status d of
        None \<Rightarrow> Inl none_has_no_get
      | Some (HttpError err) \<Rightarrow> Inr []
      | Some (HttpStatus status status_text redirects final) \<Rightarrow>
          Inr (if status \<noteq> 0 then
                 (if 200 \<le> status \<and> status < 300 then
                    [check_mark @ '' HTTP status '' @ str_int status @ '' (OK)'']
                  else if 300 \<le> status \<and> status < 400 then
                    [warning_sign @ ''  HTTP status '' @ str_int status @ '' (Redirect)'']
                  else
                    [cross_mark @ '' HTTP status '' @ str_int status @ '' (Error)''])
               else []))"

definition response_time_summary :: "conn_data \<Rightarrow> string list" where
  "response_time_summary d =
     (case response_time d of
        None \<Rightarrow> []
      | Some rt \<Rightarrow>
          (if rt < 1000 then
             [check_mark @ '' Response time '' @ fmt_0f rt @ ''ms (Good)'']
           else if rt < 3000 then
             [warning_sign @ ''  Response time '' @ fmt_0f rt @ ''ms (Slow)'']
           else
             [cross_mark @ '' Response time '' @ fmt_0f rt @ ''ms (Very slow)'']))"

definition issues_summary :: "conn_data \<Rightarrow> string list" where
  "issues_summary d =
     (if errors d \<noteq> [] then
        (newline @ siren @ '' Issues detected:'')
        # map (\<lambda>error. ''   '' @ bullet @ '' '' @ error) (errors d)
      else [])"

definition url_summary :: "conn_data \<Rightarrow> py_exception + string list" where
  "url_summary d =
     py_bind (dns_summary d) (\<lambda>dns.
     py_bind (ssl_summary d) (\<lambda>ssl.
     py_bind (http_summary d) (\<lambda>http.
     Inr ([dns, port_summary d, ssl] @ http @ response_time_summary d @ issues_summary d))))"

definition create_url_prompt :: "conn_data \<Rightarrow> string option \<Rightarrow> py_exception + string" where
  "create_url_prompt d q =
     py_bind (url_summary d) (\<lambda>summary.
       Inr (case q of
              None \<Rightarrow>
                newline @ ''            Analyze this URL and diagnose the issues:'' @ newline @
                ''            '' @ newline @ ''            URL: '' @ url d @ newline @
                ''            '' @ newline @ ''            Test Results:'' @ newline @
                ''            '' @ join newline summary @ newline @ ''            '' @
                newline @ ''            Please provide:'' @ newline @
                ''            1. Root cause analysis of the issues'' @ newline @
                ''            2. Specific troubleshooting steps'' @ newline @
                ''            3. Priority level (Critical/High/Medium/Low)'' @ newline @
                ''            4. Estimated time to resolve'' @ newline @
                ''            5. Prevention recommendations'' @ newline @ ''            '' @
                newline @ ''            Be concise and actionable.'' @ newline @
                ''            ''
            | Some question \<Rightarrow>
                (if question \<noteq> [] then
                   newline @ ''            Analyze this URL and answer the user'' @
                   apostrophe @ ''s specific question:'' @ newline @ ''            '' @
                   newline @ ''            URL: '' @ url d @ newline @
                   ''            User Question: '' @ question @ newline @ ''            '' @
                   newline @ ''            Test Results:'' @ newline @ ''            '' @
                   join newline summary @ newline @ ''            '' @ newline @
                   ''            Please provide a detailed answer to their question based on the '' @
                   ''connectivity data.'' @ newline @
                   ''            Focus on their specific concern and provide actionable '' @
                   ''recommendations.'' @ newline @ ''            ''
                 else
                   newline @ ''            Analyze this URL and diagnose the issues:'' @
                   newline @ ''            '' @ newline @ ''            URL: '' @ url d @
                   newline @ ''            '' @ newline @ ''            Test Results:'' @
                   newline @ ''            '' @ join newline summary @ newline @
                   ''            '' @ newline @ ''            Please provide:'' @ newline @
                   ''            1. Root cause analysis of the issues'' @ newline @
                   ''            2. Specific troubleshooting steps'' @ newline @
                   ''            3. Priority level (Critical/High/Medium/Low)'' @ newline @
                   ''            4. Estimated time to resolve'' @ newline @
                   ''            5. Prevention recommendations'' @ newline @ ''            '' @
                   newline @ ''            Be concise and actionable.'' @ newline @
                   ''            '')))"

subsection \<open>\<open>get_ai_analysis\<close> of \<open>devops-analyzer.py\<close>, for \<open>analysis_type == 'url'\<close>\<close>

text \<open>
  \<open>response.text[:200]\<close> is \<open>take 200\<close> here: the first 200 characters of the body,
  counted in bytes of its UTF-8 form, which is the same count for an ASCII body.
\<close>

definition get_ai_analysis :: "environment \<Rightarrow> conn_data \<Rightarrow> string option \<Rightarrow> json_value" where
  "get_ai_analysis env d question =
     (case
        py_bind (create_url_prompt d question) (\<lambda>prompt.
        py_bind (requests_post env prompt ''url-analysis'') (\<lambda>response.
          if ai_status response = 200 then
            py_bind (ai_json response) (\<lambda>result.
              case response_field result of
                Some v \<Rightarrow> Inr v
              | None \<Rightarrow>
                  (case error_field result of
                     Some err \<Rightarrow> Inr (JsonString (''AI API error: '' @ err))
                   | None \<Rightarrow> Inr (JsonString ''No AI response available'')))
          else
            (case ai_json response of
               Inr error_data \<Rightarrow>
                 (let error_msg = (case error_field error_data of
                                     Some err \<Rightarrow> err
                                   | None \<Rightarrow> ai_text response) in
                  Inr (JsonString
                         (''AI API returned status '' @ str_int (ai_status response) @ '': '' @
                          error_msg)))
             | Inl e \<Rightarrow>
                 Inr (JsonString
                        (''AI API returned status '' @ str_int (ai_status response) @ '': '' @
                         take 200 (ai_text response))))))
      of
        Inr v \<Rightarrow> v
      | Inl (RequestsTimeout m) \<Rightarrow> JsonString ''AI API timeout - using fallback analysis''
      | Inl (RequestsConnectionError m) \<Rightarrow>
          (let e = RequestsConnectionError m in
           JsonString (''AI API connection failed - using fallback analysis: '' @ str_exc e))
      | Inl e \<Rightarrow> JsonString (''AI analysis failed: '' @ str_exc e))"

text \<open>
  \<open>analysis.lower()\<close>: the lower-case text of a string; any other value has no
  \<open>lower\<close> and the call raises \<open>AttributeError\<close>.
\<close>

definition no_attribute :: "string \<Rightarrow> string \<Rightarrow> py_exception" where
  "no_attribute type_name attr =
     AttributeError (apostrophe @ type_name @ apostrophe @ '' object has no attribute ''
                     @ apostrophe @ attr @ apostrophe)"

definition lower_of :: "json_value \<Rightarrow> py_exception + string" where
  "lower_of v =
     (case v of
        JsonString text \<Rightarrow> Inr (lower text)
      | JsonOther type_name \<Rightarrow> Inl (no_attribute type_name ''lower''))"

text \<open>
  The analysis that is printed once \<open>analysis.lower()\<close> has returned: the text itself.
  A value that is no string never gets here, its \<open>lower\<close> having raised.
\<close>

definition text_of :: "json_value \<Rightarrow> py_exception + string" where
  "text_of v =
     (case v of
        JsonString text \<Rightarrow> Inr text
      | JsonOther type_name \<Rightarrow> Inl (no_attribute type_name ''lower''))"

section \<open>The command line of \<open>devops-analyzer.py\<close>, subcommand \<open>url\<close>\<close>

text \<open>What a run shows: the analysis it printed, if it got that far, and its exit code.\<close>

record cli_outcome =
  printed_analysis :: "string option"
  exit_code :: int

text \<open>Line 988: the keywords that mark the returned text as a failure of the AI path.\<close>

definition failure_keywords :: "string list" where
  "failure_keywords = [''timeout'', ''failed'', ''connection'', ''api returned status'', ''api error'']"

text \<open>Lines 981 to 990.\<close>

definition devops_analysis ::
    "environment \<Rightarrow> string \<Rightarrow> bool \<Rightarrow> conn_data \<Rightarrow> string option
      \<Rightarrow> py_exception + string" where
  "devops_analysis env now no_ai d question =
     (if no_ai then Inr (generate_fallback_analysis env now d question)
      else
        (let analysis = get_ai_analysis env d question in
         py_bind (lower_of analysis) (\<lambda>analysis_lower.
           if list_ex (\<lambda>keyword. py_in keyword analysis_lower) failure_keywords
           then Inr (generate_fallback_analysis env now d question)
           else text_of analysis)))"

text \<open>
  Lines 953 to 979 print the basic results. Printing is not modelled, only the exception
  that reading \<open>data.get('dns_resolution', {}).get('success')\<close> raises on \<open>None\<close>.
  An exception anywhere in the command reaches the handler of lines 1070 to 1072, which
  returns 1; a run that gets past the analysis returns 0 at line 1065.
\<close>

definition devops_basic_results :: "conn_data \<Rightarrow> py_exception + unit" where
  "devops_basic_results d =
     (case dns_resolution d of None \<Rightarrow> Inl none_has_no_get | Some r \<Rightarrow> Inr ())"

definition devops_main_url ::
    "environment \<Rightarrow> string \<Rightarrow> string \<Rightarrow> string option \<Rightarrow> bool \<Rightarrow> cli_outcome" where
  "devops_main_url env now u question no_ai =
     (case
        py_bind (analyze_url_connectivity env u) (\<lambda>result.
          case result of
            AnalysisFailed u' err errs \<Rightarrow> Inr \<lparr>printed_analysis = None, exit_code = 1\<rparr>
          | Completed d \<Rightarrow>
              py_bind (devops_basic_results d) (\<lambda>shown.
              py_bind (devops_analysis env now no_ai d question) (\<lambda>analysis.
                Inr \<lparr>printed_analysis = Some analysis, exit_code = 0\<rparr>)))
      of
        Inr outcome \<Rightarrow> outcome
      | Inl e \<Rightarrow> \<lparr>printed_analysis = None, exit_code = 1\<rparr>)"

section \<open>\<open>analyze_url.py\<close>\<close>

subsection \<open>\<open>get_ai_analysis\<close>\<close>

text \<open>
  \<open>main\<close> always passes the record of the probe, a dictionary with keys, so the
  \<open>if not connectivity_data\<close> branch that would probe again is never taken; the record
  is an argument here.
\<close>

definition cli_prompt :: "string \<Rightarrow> string option \<Rightarrow> string list \<Rightarrow> string" where
  "cli_prompt u q summary =
     (case q of
        None \<Rightarrow>
          newline @ ''                Analyze this URL and diagnose the issues:'' @ newline @
          ''                '' @ newline @ ''                URL: '' @ u @ newline @
          ''                '' @ newline @ ''                Test Results:'' @ newline @
          ''                '' @ join newline summary @ newline @ ''                '' @
          newline @ ''                Please provide:'' @ newline @
          ''                1. Root cause analysis of the issues'' @ newline @
          ''                2. Specific troubleshooting steps'' @ newline @
          ''                3. Priority level (Critical/High/Medium/Low)'' @ newline @
          ''                4. Estimated time to resolve'' @ newline @
          ''                5. Prevention recommendations'' @ newline @ ''                '' @
          newline @ ''                Be concise and actionable.'' @ newline @
          ''                ''
      | Some question \<Rightarrow>
          (if question \<noteq> [] then
             newline @ ''                Analyze this URL and answer the user'' @ apostrophe @
             ''s specific question:'' @ newline @ ''                '' @ newline @
             ''                URL: '' @ u @ newline @ ''                User Question: '' @
             question @ newline @ ''                '' @ newline @
             ''                Test Results:'' @ newline @ ''                '' @
             join newline summary @ newline @ ''                '' @ newline @
             ''                Please provide a detailed answer to their question based on '' @
             ''the connectivity data.'' @ newline @
             ''                Focus on their specific concern and provide actionable '' @
             ''recommendations.'' @ newline @ ''                ''
           else
             newline @ ''                Analyze this URL and diagnose the issues:'' @
             newline @ ''                '' @ newline @ ''                URL: '' @ u @
             newline @ ''                '' @ newline @ ''                Test Results:'' @
             newline @ ''                '' @ join newline summary @ newline @
             ''                '' @ newline @ ''                Please provide:'' @ newline @
             ''                1. Root cause analysis of the issues'' @ newline @
             ''                2. Specific troubleshooting steps'' @ newline @
             ''                3. Priority level (Critical/High/Medium/Low)'' @ newline @
             ''                4. Estimated time to resolve'' @ newline @
             ''                5. Prevention recommendations'' @ newline @
             ''                '' @ newline @ ''                Be concise and actionable.'' @
             newline @ ''                ''))"

definition cli_get_ai_analysis ::
    "environment \<Rightarrow> string \<Rightarrow> string option \<Rightarrow> conn_data \<Rightarrow> json_value" where
  "cli_get_ai_analysis env u question d =
     (case
        py_bind (url_summary d) (\<lambda>summary.
        py_bind (requests_post env (cli_prompt u question summary) ''url-analysis'') (\<lambda>response.
          if ai_status response = 200 then
            py_bind (ai_json response) (\<lambda>result.
              case response_field result of
                Some v \<Rightarrow> Inr v
              | None \<Rightarrow> Inr (JsonString ''No AI response available''))
          else
            Inr (JsonString
                   (''AI API returned status '' @ str_int (ai_status response) @ '': '' @
                    ai_text response))))
      of
        Inr v \<Rightarrow> v
      | Inl (RequestsTimeout m) \<Rightarrow> JsonString ''AI API timeout - using fallback analysis''
      | Inl e \<Rightarrow> JsonString (''AI analysis failed: '' @ str_exc e))"

subsection \<open>\<open>generate_fallback_analysis\<close>\<close>

definition cli_report_header :: "string \<Rightarrow> string \<Rightarrow> string" where
  "cli_report_header now u =
     newline @ ''# URL Analysis Report'' @ newline @ newline @ ''**URL:** '' @ u @ newline @
     ''**Analyzed:** '' @ now @ newline @ newline @ ''## '' @ magnifier @ '' Test Results'' @
     newline @ newline @ ''### Connectivity Tests'' @ newline"

text \<open>Lines 263 to 266: \<open>connectivity_data.get('ssl_info', {}).get('success')\<close>.\<close>

definition cli_ssl_line :: "conn_data \<Rightarrow> py_exception + string" where
  "cli_ssl_line d =
     (case ssl_info d of
        None \<Rightarrow> Inl none_has_no_get
      | Some (SslSuccess cert) \<Rightarrow>
          Inr (check_mark @ '' **SSL Certificate:** Valid'' @ newline)
      | Some (SslFailure err) \<Rightarrow>
          Inr (cross_mark @ '' **SSL Certificate:** Invalid or expired'' @ newline))"

definition cli_http_line :: "conn_data \<Rightarrow> py_exception + string" where
  "cli_http_line d =
     (case http_status d of
        None \<Rightarrow> Inl none_has_no_get
      | Some (HttpError err) \<Rightarrow> Inr []
      | Some (HttpStatus status status_text redirects final) \<Rightarrow>
          Inr (if status \<noteq> 0 then
                 (if 200 \<le> status \<and> status < 300 then check_mark else cross_mark) @
                 '' **HTTP Status:** '' @ str_int status @ '' '' @ status_text @ newline
               else []))"

definition cli_response_time_line :: "conn_data \<Rightarrow> string" where
  "cli_response_time_line d =
     (case response_time d of
        None \<Rightarrow> []
      | Some rt \<Rightarrow>
          (if rt < 1000 then check_mark else warning_sign) @ '' **Response Time:** '' @
          fmt_0f rt @ ''ms'' @ newline)"

definition cli_question_section :: "conn_data \<Rightarrow> string \<Rightarrow> py_exception + string" where
  "cli_question_section d question =
     (let question_lower = lower question in
      py_bind
        (if py_in ''improve'' question_lower \<or> py_in ''optimiz'' question_lower then
           (case response_time d of
              None \<Rightarrow> Inl none_has_no_get
            | Some rt \<Rightarrow>
                Inr (''### '' @ rocket @ '' Improvement Recommendations:'' @ newline @
                     (if rt > 1000 then
                        bullet @ '' Response time is slow - consider caching and CDN'' @ newline
                      else []) @
                     bullet @ '' Set up comprehensive monitoring'' @ newline @
                     bullet @ '' Implement automated health checks'' @ newline @
                     bullet @ '' Use performance monitoring tools'' @ newline))
         else if py_in ''slow'' question_lower \<or> py_in ''performance'' question_lower then
           Inr (''### '' @ high_voltage @ '' Performance Analysis:'' @ newline @
                bullet @ '' Check server load and resource utilization'' @ newline @
                bullet @ '' Implement caching at multiple levels'' @ newline @
                bullet @ '' Consider using a Content Delivery Network (CDN)'' @ newline)
         else if py_in ''secure'' question_lower \<or> py_in ''security'' question_lower then
           (case ssl_info d of
              None \<Rightarrow> Inl none_has_no_get
            | Some s \<Rightarrow>
                Inr (''### '' @ padlock @ '' Security Recommendations:'' @ newline @
                     (case s of
                        SslSuccess cert \<Rightarrow> []
                      | SslFailure err \<Rightarrow>
                          bullet @ '' Fix SSL certificate issues immediately'' @ newline) @
                     bullet @ '' Implement HTTPS redirects'' @ newline @
                     bullet @ '' Add security headers (HSTS, CSP)'' @ newline))
         else
           Inr (''### '' @ bar_chart @ '' General Recommendations:'' @ newline @
                bullet @ '' Monitor performance and availability'' @ newline @
                bullet @ '' Implement proper logging and alerting'' @ newline @
                bullet @ '' Regular security assessments'' @ newline))
        (\<lambda>recommendations.
           Inr (newline @ ''## '' @ robot @ '' Analysis for Your Question'' @ newline @
                newline @ ''**Question:** '' @ question @ newline @ newline @
                recommendations)))"

definition cli_troubleshooting_steps :: string where
  "cli_troubleshooting_steps =
     newline @ ''## '' @ wrench @ '' General Troubleshooting Steps'' @ newline @ newline @
     ''### Immediate Steps'' @ newline @
     ''1. **Check URL spelling** - Ensure the URL is correct'' @ newline @
     ''2. **Network connectivity** - Verify internet connection'' @ newline @
     ''3. **Firewall settings** - Check if ports are blocked'' @ newline @
     ''4. **DNS settings** - Verify DNS resolution'' @ newline @
     ''5. **Service status** - Check if the target service is running'' @ newline @ newline @
     ''### Specific Issues'' @ newline @
     ''- **DNS Failures:** Check DNS configuration, try alternative DNS'' @ newline @
     ''- **Port Blocked:** Verify firewall rules, check service listening port'' @ newline @
     ''- **SSL Issues:** Update certificate, check certificate chain'' @ newline @
     ''- **HTTP Errors:** Check service logs, verify configuration'' @ newline @
     ''- **Slow Response:** Check server load, network latency'' @ newline @ newline @
     ''## '' @ bar_chart @ '' Priority Assessment'' @ newline"

definition cli_report_footer :: string where
  "cli_report_footer =
     newline @ ''## '' @ shield @ '' Prevention Recommendations'' @ newline @
     ''- Implement monitoring and alerting'' @ newline @
     ''- Use load balancers for high availability'' @ newline @
     ''- Regular SSL certificate renewal'' @ newline @
     ''- Performance monitoring and optimization'' @ newline @
     ''- Backup DNS configurations'' @ newline @ newline @ ''---'' @ newline @
     ''*This analysis was generated automatically. For AI-powered insights, ensure '' @
     ''the analysis service is available.*'' @ newline"

definition cli_generate_fallback_analysis ::
    "string \<Rightarrow> string \<Rightarrow> string option \<Rightarrow> conn_data \<Rightarrow> py_exception + string" where
  "cli_generate_fallback_analysis now u q d =
     py_bind (Inr (cli_report_header now u)) (\<lambda>header.
     py_bind (dns_line d) (\<lambda>dns.
     py_bind (cli_ssl_line d) (\<lambda>ssl.
     py_bind (cli_http_line d) (\<lambda>http.
     py_bind (case q of
                None \<Rightarrow> Inr []
              | Some question \<Rightarrow>
                  (if question \<noteq> [] then cli_question_section d question else Inr []))
       (\<lambda>answer.
     Inr (header @ dns @ port_line d @ ssl @ http @ cli_response_time_line d
          @ issues_found d @ answer @ cli_troubleshooting_steps
          @ priority_assessment (errors d) @ cli_report_footer))))))"

subsection \<open>\<open>main\<close>\<close>

text \<open>Lines 377 to 380.\<close>

definition normalize_url :: "string \<Rightarrow> string" where
  "normalize_url u =
     (if prefix ''http://'' u \<or> prefix ''https://'' u then u else ''https://'' @ u)"

text \<open>
  Lines 399 to 421 print the basic results; what is modelled is the exception their
  \<open>.get(key, {}).get(...)\<close> reads raise on a \<open>None\<close> value.
\<close>

definition cli_basic_results :: "conn_data \<Rightarrow> py_exception + unit" where
  "cli_basic_results d =
     py_bind (case dns_resolution d of None \<Rightarrow> Inl none_has_no_get | Some r \<Rightarrow> Inr ()) (\<lambda>a.
     py_bind (case ssl_info d of None \<Rightarrow> Inl none_has_no_get | Some r \<Rightarrow> Inr ()) (\<lambda>b.
     (case http_status d of None \<Rightarrow> Inl none_has_no_get | Some r \<Rightarrow> Inr ())))"

text \<open>Lines 425 to 435.\<close>

definition cli_analysis ::
    "environment \<Rightarrow> string \<Rightarrow> bool \<Rightarrow> string \<Rightarrow> string option \<Rightarrow> conn_data
      \<Rightarrow> py_exception + string" where
  "cli_analysis env now no_ai u question d =
     (if no_ai then cli_generate_fallback_analysis now u question d
      else
        try_except
          (let analysis = cli_get_ai_analysis env u question d in
           py_bind (lower_of analysis) (\<lambda>analysis_lower.
             if py_in ''timeout'' analysis_lower \<or> py_in ''failed'' analysis_lower
             then cli_generate_fallback_analysis now u question d
             else text_of analysis))
          (\<lambda>e. cli_generate_fallback_analysis now u question d))"

definition cli_main ::
    "environment \<Rightarrow> string \<Rightarrow> string \<Rightarrow> string option \<Rightarrow> bool \<Rightarrow> py_exception + cli_outcome" where
  "cli_main env now arg_url question no_ai =
     (let u = normalize_url arg_url in
      py_bind (analyze_url_connectivity env u) (\<lambda>result.
        case result of
          AnalysisFailed u' err errs \<Rightarrow> Inr \<lparr>printed_analysis = None, exit_code = 1\<rparr>
        | Completed d \<Rightarrow>
            py_bind (cli_basic_results d) (\<lambda>shown.
            py_bind (cli_analysis env now no_ai u question d) (\<lambda>analysis.
              Inr \<lparr>printed_analysis = Some analysis,
                   exit_code = (if errors d \<noteq> [] then 1 else 0)\<rparr>))))"

text \<open>
  \<open>sys.exit(main())\<close>: the status of the process is the value \<open>main\<close> returns, and 1
  when an exception leaves \<open>main\<close>.
\<close>

definition process_exit_code :: "py_exception + cli_outcome \<Rightarrow> int" where
  "process_exit_code r = (case r of Inl e \<Rightarrow> 1 | Inr outcome \<Rightarrow> exit_code outcome)"

section \<open>\<open>generate_fallback_analysis\<close> of \<open>web_interface.py\<close>\<close>

definition web_report_header :: "string \<Rightarrow> string \<Rightarrow> string" where
  "web_report_header now u =
     newline @ ''# URL Issue Analysis Report'' @ newline @ newline @ ''**URL:** '' @ u @
     newline @ ''**Analyzed:** '' @ now @ newline @ newline @ ''## '' @ magnifier @
     '' Test Results'' @ newline @ newline @ ''### Connectivity Tests'' @ newline"

definition web_troubleshooting_steps :: string where
  "web_troubleshooting_steps =
     newline @ ''## '' @ wrench @ '' Troubleshooting Steps'' @ newline @ newline @
     ''### General Steps'' @ newline @
     ''1. **Check URL spelling** - Ensure the URL is correct'' @ newline @
     ''2. **Network connectivity** - Verify internet connection'' @ newline @
     ''3. **Firewall settings** - Check if ports are blocked'' @ newline @
     ''4. **DNS settings** - Verify DNS resolution'' @ newline @
     ''5. **Service status** - Check if the target service is running'' @ newline @ newline @
     ''### Specific Issues'' @ newline @
     ''- **DNS Failures:** Check DNS configuration, try alternative DNS'' @ newline @
     ''- **Port Blocked:** Verify firewall rules, check service listening port'' @ newline @
     ''- **SSL Issues:** Update certificate, check certificate chain'' @ newline @
     ''- **HTTP Errors:** Check service logs, verify configuration'' @ newline @
     ''- **Slow Response:** Check server load, network latency'' @ newline @ newline @
     ''## '' @ bar_chart @ '' Priority Assessment'' @ newline"

definition web_report_footer :: string where
  "web_report_footer =
     newline @ ''## '' @ shield @ '' Prevention Recommendations'' @ newline @
     ''- Implement monitoring and alerting'' @ newline @
     ''- Use load balancers for high availability'' @ newline @
     ''- Regular SSL certificate renewal'' @ newline @
     ''- Performance monitoring and optimization'' @ newline @
     ''- Backup DNS configurations'' @ newline @ newline @ ''---'' @ newline @
     ''*This analysis was generated automatically. For AI-powered insights, ensure '' @
     ''the analysis service is available.*'' @ newline"

text \<open>
  Lines 527 to 550 are the statements of lines 253 to 274 of \<open>analyze_url.py\<close>, and lines
  579 to 585 those of its lines 334 to 340.
\<close>

definition web_generate_fallback_analysis ::
    "string \<Rightarrow> string \<Rightarrow> conn_data \<Rightarrow> py_exception + string" where
  "web_generate_fallback_analysis now u d =
     py_bind (Inr (web_report_header now u)) (\<lambda>header.
     py_bind (dns_line d) (\<lambda>dns.
     py_bind (cli_ssl_line d) (\<lambda>ssl.
     py_bind (cli_http_line d) (\<lambda>http.
     Inr (header @ dns @ port_line d @ ssl @ http @ cli_response_time_line d
          @ issues_found d @ web_troubleshooting_steps
          @ priority_assessment (errors d) @ web_report_footer)))))"

section \<open>What a probe run records\<close>

text \<open>
  The entry each sub-probe appends to \<open>errors\<close> and the outcome it stores, read off the
  four \<open>try\<close> blocks of \<open>analyze_url_connectivity\<close>.
\<close>

definition dns_entry :: "environment \<Rightarrow> string option \<Rightarrow> string list" where
  "dns_entry env h =
     (case gethostbyname env h of
        Inl e \<Rightarrow> [''DNS Resolution failed: '' @ str_exc e]
      | Inr ip \<Rightarrow> [])"

definition port_entry :: "environment \<Rightarrow> string option \<Rightarrow> nat \<Rightarrow> string list" where
  "port_entry env h p =
     (case connect_ex env h p of
        Inl e \<Rightarrow> [''Port connection failed: '' @ str_exc e]
      | Inr c \<Rightarrow> [])"

definition ssl_entry :: "environment \<Rightarrow> string \<Rightarrow> string option \<Rightarrow> nat \<Rightarrow> string list" where
  "ssl_entry env sch h p =
     (if sch = ''https'' then
        (case getpeercert env h p of
           Inl e \<Rightarrow> [''SSL Certificate issue: '' @ str_exc e]
         | Inr c \<Rightarrow> [])
      else [])"

definition http_entries :: "environment \<Rightarrow> string \<Rightarrow> string list" where
  "http_entries env u =
     (case requests_get env u of
        Inl (RequestsTimeout m) \<Rightarrow> [''Request timed out'']
      | Inl (RequestsConnectionError m) \<Rightarrow> [''Connection error: '' @ m]
      | Inl e \<Rightarrow> [''HTTP request failed: '' @ str_exc e]
      | Inr (resp, ms) \<Rightarrow> http_entry resp)"

definition dns_outcome :: "environment \<Rightarrow> string option \<Rightarrow> dns_result" where
  "dns_outcome env h =
     (case gethostbyname env h of Inl e \<Rightarrow> DnsFailure (str_exc e) | Inr ip \<Rightarrow> DnsSuccess ip)"

definition port_outcome :: "environment \<Rightarrow> string option \<Rightarrow> nat \<Rightarrow> port_result" where
  "port_outcome env h p =
     (case connect_ex env h p of Inl e \<Rightarrow> PortError (str_exc e) | Inr c \<Rightarrow> PortChecked (c = 0))"

definition ssl_outcome :: "environment \<Rightarrow> string \<Rightarrow> string option \<Rightarrow> nat \<Rightarrow> ssl_result option" where
  "ssl_outcome env sch h p =
     (if sch = ''https'' then
        Some (case getpeercert env h p of Inl e \<Rightarrow> SslFailure (str_exc e) | Inr c \<Rightarrow> SslSuccess c)
      else None)"

definition http_outcome :: "environment \<Rightarrow> string \<Rightarrow> http_result" where
  "http_outcome env u =
     (case requests_get env u of
        Inl (RequestsTimeout m) \<Rightarrow> HttpError ''Request timeout''
      | Inl (RequestsConnectionError m) \<Rightarrow> HttpError ''Connection error''
      | Inl e \<Rightarrow> HttpError (str_exc e)
      | Inr (resp, ms) \<Rightarrow> HttpStatus (status_code resp) (reason resp) (history_len resp) (final_url resp))"

definition time_outcome :: "environment \<Rightarrow> string \<Rightarrow> rat option" where
  "time_outcome env u = (case requests_get env u of Inl e \<Rightarrow> None | Inr (resp, ms) \<Rightarrow> Some ms)"

text \<open>
  The sub-probe an entry of \<open>errors\<close> comes from, by its fixed beginning: 0 for DNS, 1
  for the port, 2 for TLS, 3 for HTTP, and 4 for any other text.
\<close>

definition entry_rank :: "string \<Rightarrow> nat" where
  "entry_rank s =
     (if prefix ''DNS Resolution failed: '' s then 0
      else if prefix ''Port connection failed: '' s then 1
      else if prefix ''SSL Certificate issue: '' s then 2
      else if prefix ''HTTP Error '' s \<or> s = ''Request timed out''
              \<or> prefix ''Connection error: '' s \<or> prefix ''HTTP request failed: '' s then 3
      else 4)"

text \<open>
  The specification's count: the number of sub-probes of a record that reported failure.
  It follows the words of the specification, not the code.
\<close>

definition spec_failed_subprobes :: "conn_data \<Rightarrow> nat" where
  "spec_failed_subprobes r =
     (case dns_resolution r of Some (DnsFailure e) \<Rightarrow> 1 | _ \<Rightarrow> 0)
   + (case port_test r of Some (PortChecked True) \<Rightarrow> 0 | Some other \<Rightarrow> 1 | None \<Rightarrow> 0)
   + (case ssl_info r of Some (SslFailure e) \<Rightarrow> 1 | _ \<Rightarrow> 0)
   + (case http_status r of
        Some (HttpStatus c t n f) \<Rightarrow> (if c \<ge> 400 then 1 else 0)
      | Some (HttpError e) \<Rightarrow> 1
      | None \<Rightarrow> 0)"

section \<open>The specification's reading of the fallback reasoner\<close>

text \<open>
  These definitions follow the words of the specification, section 4.4: the five keyword
  buckets in their order of priority, the first matching one answering, and the general
  answer where none matches.
\<close>

datatype bucket = Availability | Performance | Security | Issues | Identity | General

fun bucket_matches :: "bucket \<Rightarrow> string \<Rightarrow> bool" where
  "bucket_matches Availability ql =
     (py_in ''availability'' ql \<or> py_in ''improve'' ql \<or> py_in ''optimiz'' ql)"
| "bucket_matches Performance ql = (py_in ''slow'' ql \<or> py_in ''performance'' ql)"
| "bucket_matches Security ql =
     (py_in ''secure'' ql \<or> py_in ''security'' ql \<or> py_in ''safe'' ql \<or> py_in ''trust'' ql
      \<or> py_in ''certificate'' ql)"
| "bucket_matches Issues ql = (py_in ''error'' ql \<or> py_in ''issue'' ql \<or> py_in ''problem'' ql)"
| "bucket_matches Identity ql =
     (py_in ''what'' ql \<and> (py_in ''use'' ql \<or> py_in ''purpose'' ql \<or> py_in ''is'' ql))"
| "bucket_matches General ql = True"

definition spec_bucket :: "string \<Rightarrow> bucket" where
  "spec_bucket ql =
     (case find (\<lambda>b. bucket_matches b ql) [Availability, Performance, Security, Issues, Identity] of
        Some b \<Rightarrow> b
      | None \<Rightarrow> General)"

fun bucket_answer :: "environment \<Rightarrow> conn_data \<Rightarrow> bucket \<Rightarrow> py_exception + string" where
  "bucket_answer env d Availability = Inr (availability_answer d)"
| "bucket_answer env d Performance = Inr (performance_answer d)"
| "bucket_answer env d Security = Inr (security_answer d)"
| "bucket_answer env d Issues = Inr (issues_answer d)"
| "bucket_answer env d Identity = py_bind (domain_of env d) (\<lambda>domain. Inr (identity_answer domain))"
| "bucket_answer env d General = py_bind (domain_of env d) (general_answer d)"

text \<open>
  The performance tiers as the specification words them: below 1000 ms good, from 1000 to
  2000 ms moderate, above 2000 ms severe, no measurement a possible timeout.
\<close>

definition spec_performance_answer :: "conn_data \<Rightarrow> string" where
  "spec_performance_answer d =
     (case response_time d of
        None \<Rightarrow> unmeasured_answer
      | Some ms \<Rightarrow>
          (if ms < 1000 then acceptable_answer ms
           else if ms \<le> 2000 then slow_answer ms
           else very_slow_answer ms))"

text \<open>
  The priority tier as the specification words it: 0 errors Low, 1 or 2 Medium, 3 or more
  High; and the glyph and the remark the report prints beside each tier.
\<close>

definition spec_priority :: "nat \<Rightarrow> string" where
  "spec_priority n = (if n = 0 then ''Low'' else if n \<le> 2 then ''Medium'' else ''High'')"

definition tier_glyph :: "string \<Rightarrow> string" where
  "tier_glyph t =
     (if t = ''Low'' then green_circle else if t = ''Medium'' then yellow_circle else red_circle)"

definition tier_remark :: "string \<Rightarrow> string" where
  "tier_remark t =
     (if t = ''Low'' then ''No critical issues''
      else if t = ''Medium'' then ''Some issues detected''
      else ''Multiple critical issues'')"

section \<open>Concrete runs\<close>

definition unreachable_service :: "string \<Rightarrow> string \<Rightarrow> py_exception + ai_response" where
  "unreachable_service prompt context_label = Inl (RequestsConnectionError ''Connection refused'')"

definition env_all_fail :: environment where
  "env_all_fail =
     \<lparr>urlparse = (\<lambda>u. Inr \<lparr>p_scheme = ''https'', p_hostname = Some ''down.example'',
                              p_port = Inr None\<rparr>),
      gethostbyname = (\<lambda>h. Inl (OtherException ''[Errno -2] Name or service not known'')),
      connect_ex = (\<lambda>h p. Inl (OtherException ''[Errno -2] Name or service not known'')),
      getpeercert = (\<lambda>h p. Inl (OtherException ''[Errno -2] Name or service not known'')),
      requests_get = (\<lambda>u. Inl (RequestsConnectionError ''Max retries exceeded'')),
      requests_post = unreachable_service\<rparr>"

definition env_closed_port :: environment where
  "env_closed_port =
     \<lparr>urlparse = (\<lambda>u. Inr \<lparr>p_scheme = ''https'', p_hostname = Some ''localhost'',
                              p_port = Inr (Some 8443)\<rparr>),
      gethostbyname = (\<lambda>h. Inr ''127.0.0.1''),
      connect_ex = (\<lambda>h p. Inr 111),
      getpeercert = (\<lambda>h p. Inl (OtherException ''[Errno 111] Connection refused'')),
      requests_get = (\<lambda>u. Inl (RequestsConnectionError ''Connection refused'')),
      requests_post = unreachable_service\<rparr>"

definition closed_port_record :: conn_data where
  "closed_port_record =
     \<lparr>url = ''https://localhost:8443'', hostname = Some ''localhost'', port = 8443,
      scheme = ''https'', port_test = Some (PortChecked False),
      dns_resolution = Some (DnsSuccess ''127.0.0.1''),
      ssl_info = Some (SslFailure ''[Errno 111] Connection refused''),
      http_status = Some (HttpError ''Connection error''), response_time = None,
      errors = [''SSL Certificate issue: [Errno 111] Connection refused'',
                ''Connection error: Connection refused'']\<rparr>"

definition env_plain_ok :: environment where
  "env_plain_ok =
     \<lparr>urlparse = (\<lambda>u. Inr \<lparr>p_scheme = ''http'', p_hostname = Some ''example.com'',
                              p_port = Inr None\<rparr>),
      gethostbyname = (\<lambda>h. Inr ''93.184.216.34''),
      connect_ex = (\<lambda>h p. Inr 0),
      getpeercert = (\<lambda>h p. Inl (OtherException ''not called'')),
      requests_get = (\<lambda>u. Inr (\<lparr>status_code = 200, reason = ''OK'', history_len = 0,
                                   final_url = ''http://example.com/''\<rparr>, 120)),
      requests_post = unreachable_service\<rparr>"

definition plain_ok_record :: conn_data where
  "plain_ok_record =
     \<lparr>url = ''http://example.com'', hostname = Some ''example.com'', port = 80,
      scheme = ''http'', port_test = Some (PortChecked True),
      dns_resolution = Some (DnsSuccess ''93.184.216.34''),
      ssl_info = None,
      http_status = Some (HttpStatus 200 ''OK'' 0 ''http://example.com/''),
      response_time = Some 120, errors = []\<rparr>"

definition env_no_hostname :: environment where
  "env_no_hostname =
     \<lparr>urlparse = (\<lambda>u. Inr \<lparr>p_scheme = '''', p_hostname = None, p_port = Inr None\<rparr>),
      gethostbyname = (\<lambda>h. Inl (OtherException ''argument 1 must be str, not None'')),
      connect_ex = (\<lambda>h p. Inl (OtherException ''str, bytes or bytearray expected, not NoneType'')),
      getpeercert = (\<lambda>h p. Inl (OtherException ''not called'')),
      requests_get = (\<lambda>u. Inl (OtherException ''Invalid URL: No scheme supplied'')),
      requests_post = unreachable_service\<rparr>"

definition no_hostname_record :: conn_data where
  "no_hostname_record =
     \<lparr>url = ''example.com'', hostname = None, port = 80, scheme = '''',
      port_test = Some (PortError ''str, bytes or bytearray expected, not NoneType''),
      dns_resolution = Some (DnsFailure ''argument 1 must be str, not None''),
      ssl_info = None,
      http_status = Some (HttpError ''Invalid URL: No scheme supplied''),
      response_time = None,
      errors = [''DNS Resolution failed: argument 1 must be str, not None'',
                ''Port connection failed: str, bytes or bytearray expected, not NoneType'',
                ''HTTP request failed: Invalid URL: No scheme supplied'']\<rparr>"

definition env_bad_port :: environment where
  "env_bad_port =
     \<lparr>urlparse = (\<lambda>u. Inr \<lparr>p_scheme = ''http'', p_hostname = Some ''example.com'',
                              p_port = Inl (ValueError ''Port out of range 0-65535'')\<rparr>),
      gethostbyname = (\<lambda>h. Inr ''93.184.216.34''),
      connect_ex = (\<lambda>h p. Inr 0),
      getpeercert = (\<lambda>h p. Inl (OtherException ''not called'')),
      requests_get = (\<lambda>u. Inl (OtherException ''not called'')),
      requests_post = unreachable_service\<rparr>"

definition all_fail_record :: conn_data where
  "all_fail_record =
     \<lparr>url = ''https://down.example'', hostname = Some ''down.example'',
          port = 443, scheme = ''https'',
          port_test = Some (PortError ''[Errno -2] Name or service not known''),
          dns_resolution = Some (DnsFailure ''[Errno -2] Name or service not known''),
          ssl_info = Some (SslFailure ''[Errno -2] Name or service not known''),
          http_status = Some (HttpError ''Connection error''), response_time = None,
          errors = [''DNS Resolution failed: [Errno -2] Name or service not known'',
                    ''Port connection failed: [Errno -2] Name or service not known'',
                    ''SSL Certificate issue: [Errno -2] Name or service not known'',
                    ''Connection error: Max retries exceeded'']\<rparr>"

definition example_certificate :: certificate where
  "example_certificate =
     \<lparr>subject = Some ''example.com'', issuer = Some ''Example CA'', version = Some ''3'',
      serial_number = Some ''01'', not_before = Some ''Jan  1 00:00:00 2026 GMT'',
      not_after = Some ''Jan  1 00:00:00 2027 GMT''\<rparr>"

definition env_https_ok :: environment where
  "env_https_ok =
     \<lparr>urlparse = (\<lambda>u. Inr \<lparr>p_scheme = ''https'', p_hostname = Some ''example.com'',
                              p_port = Inr None\<rparr>),
      gethostbyname = (\<lambda>h. Inr ''93.184.216.34''),
      connect_ex = (\<lambda>h p. Inr 0),
      getpeercert = (\<lambda>h p. Inr example_certificate),
      requests_get = (\<lambda>u. Inr (\<lparr>status_code = 200, reason = ''OK'', history_len = 0,
                                   final_url = ''https://example.com/''\<rparr>, 120)),
      requests_post = unreachable_service\<rparr>"

definition https_ok_record :: conn_data where
  "https_ok_record =
     \<lparr>url = ''https://example.com'', hostname = Some ''example.com'', port = 443,
      scheme = ''https'', port_test = Some (PortChecked True),
      dns_resolution = Some (DnsSuccess ''93.184.216.34''),
      ssl_info = Some (SslSuccess example_certificate),
      http_status = Some (HttpStatus 200 ''OK'' 0 ''https://example.com/''),
      response_time = Some 120, errors = []\<rparr>"

definition slow_record :: conn_data where
  "slow_record = https_ok_record\<lparr>response_time := Some 2500\<rparr>"

definition boundary_record :: conn_data where
  "boundary_record = https_ok_record\<lparr>response_time := Some 1000\<rparr>"

definition env_status_503 :: environment where
  "env_status_503 =
     env_https_ok\<lparr>requests_post :=
       (\<lambda>prompt context_label.
          Inr \<lparr>ai_status = 503, ai_json = Inl (ValueError ''Expecting value''),
               ai_text = ''Service Unavailable''\<rparr>)\<rparr>"

definition env_null_response :: environment where
  "env_null_response =
     env_https_ok\<lparr>requests_post :=
       (\<lambda>prompt context_label.
          Inr \<lparr>ai_status = 200,
               ai_json = Inr \<lparr>response_field = Some (JsonOther ''NoneType''),
                              error_field = None\<rparr>,
               ai_text = ''{'' @ [CHR 0x22] @ ''response'' @ [CHR 0x22] @ '': null}''\<rparr>)\<rparr>"

section \<open>Properties of the probe\<close>

lemma dns_resolution_test_eq:
  "dns_resolution_test env r =
     Inr (r\<lparr>dns_resolution := Some (dns_outcome env (hostname r)),
            errors := errors r @ dns_entry env (hostname r)\<rparr>)"
  by (simp add: dns_resolution_test_def try_except_def py_bind_def dns_outcome_def dns_entry_def
      split: sum.splits)

lemma port_connectivity_test_eq:
  "port_connectivity_test env r =
     Inr (r\<lparr>port_test := Some (port_outcome env (hostname r) (port r)),
            errors := errors r @ port_entry env (hostname r) (port r)\<rparr>)"
  by (simp add: port_connectivity_test_def try_except_def py_bind_def port_outcome_def port_entry_def
      split: sum.splits)

lemma ssl_certificate_test_eq:
  "ssl_certificate_test env r =
     Inr (r\<lparr>ssl_info := (if scheme r = ''https'' then ssl_outcome env (scheme r) (hostname r) (port r) else ssl_info r),
            errors := errors r @ ssl_entry env (scheme r) (hostname r) (port r)\<rparr>)"
  by (simp add: ssl_certificate_test_def try_except_def py_bind_def ssl_outcome_def ssl_entry_def
      split: sum.splits)

lemma http_status_test_eq:
  "http_status_test env r =
     Inr (r\<lparr>http_status := Some (http_outcome env (url r)),
            response_time := (case requests_get env (url r) of Inl e \<Rightarrow> response_time r | Inr (resp, ms) \<Rightarrow> Some ms),
            errors := errors r @ http_entries env (url r)\<rparr>)"
  by (simp add: http_status_test_def try_except_def py_bind_def http_outcome_def http_entries_def
      split: sum.splits py_exception.splits prod.splits)

lemma analyze_completed:
  assumes "urlparse env u = Inr p" and "p_port p = Inr po"
  shows "analyze_url_connectivity env u =
     Inr (Completed
       \<lparr>url = u, hostname = p_hostname p, port = default_port (p_scheme p) po,
        scheme = p_scheme p,
        port_test = Some (port_outcome env (p_hostname p) (default_port (p_scheme p) po)),
        dns_resolution = Some (dns_outcome env (p_hostname p)),
        ssl_info = ssl_outcome env (p_scheme p) (p_hostname p) (default_port (p_scheme p) po),
        http_status = Some (http_outcome env u),
        response_time = time_outcome env u,
        errors = dns_entry env (p_hostname p)
               @ port_entry env (p_hostname p) (default_port (p_scheme p) po)
               @ ssl_entry env (p_scheme p) (p_hostname p) (default_port (p_scheme p) po)
               @ http_entries env u\<rparr>)"
  using assms
  by (simp add: analyze_url_connectivity_def try_except_def py_bind_def initial_result_def
      dns_resolution_test_eq port_connectivity_test_eq ssl_certificate_test_eq http_status_test_eq
      time_outcome_def ssl_outcome_def split: sum.splits prod.splits)

lemma analyze_parse_raises:
  assumes "urlparse env u = Inl e \<or> (\<exists>p. urlparse env u = Inr p \<and> p_port p = Inl e)"
  shows "analyze_url_connectivity env u =
           Inr (AnalysisFailed u (''Analysis failed: '' @ str_exc e) [str_exc e])"
  using assms
  by (auto simp add: analyze_url_connectivity_def try_except_def py_bind_def)

lemma rank_dns [simp]: "entry_rank (''DNS Resolution failed: '' @ m) = 0"
  by (simp add: entry_rank_def)

lemma rank_port [simp]: "entry_rank (''Port connection failed: '' @ m) = 1"
  by (simp add: entry_rank_def)

lemma rank_ssl [simp]: "entry_rank (''SSL Certificate issue: '' @ m) = 2"
  by (simp add: entry_rank_def)

lemma rank_http [simp]:
  "entry_rank (''HTTP Error '' @ m) = 3"
  "entry_rank ''Request timed out'' = 3"
  "entry_rank (''Connection error: '' @ m) = 3"
  "entry_rank (''HTTP request failed: '' @ m) = 3"
  by (simp_all add: entry_rank_def)

lemma dns_entry_rank: "x \<in> set (dns_entry env h) \<Longrightarrow> entry_rank x = 0"
  by (auto simp: dns_entry_def entry_rank_def split: sum.splits)

lemma port_entry_rank: "x \<in> set (port_entry env h p) \<Longrightarrow> entry_rank x = 1"
  by (auto simp: port_entry_def entry_rank_def split: sum.splits)

lemma ssl_entry_rank: "x \<in> set (ssl_entry env s h p) \<Longrightarrow> entry_rank x = 2"
proof (cases "s = ''https''")
  case True
  assume "x \<in> set (ssl_entry env s h p)"
  with True show ?thesis
    by (cases "getpeercert env h p") (simp_all add: ssl_entry_def entry_rank_def)
next
  case False
  assume "x \<in> set (ssl_entry env s h p)"
  with False show ?thesis by (simp add: ssl_entry_def)
qed

lemma http_entries_rank: "x \<in> set (http_entries env u) \<Longrightarrow> entry_rank x = 3"
  by (auto simp: http_entries_def http_entry_def entry_rank_def split: sum.splits if_splits py_exception.splits prod.splits)

lemma dns_entry_sorted: "sorted_wrt P (map f (dns_entry env h))"
  by (auto simp: dns_entry_def split: sum.splits)

lemma port_entry_sorted: "sorted_wrt P (map f (port_entry env h p))"
  by (auto simp: port_entry_def split: sum.splits)

lemma ssl_entry_sorted: "sorted_wrt P (map f (ssl_entry env s h p))"
  by (auto simp: ssl_entry_def split: sum.splits)

lemma http_entries_sorted: "sorted_wrt P (map f (http_entries env u))"
  by (auto simp: http_entries_def http_entry_def split: sum.splits py_exception.splits prod.splits)

lemma entries_sorted:
  "sorted_wrt (<) (map entry_rank (dns_entry env h @ port_entry env h p @ ssl_entry env s h p @ http_entries env u))"
  by (auto simp: sorted_wrt_append dns_entry_sorted port_entry_sorted ssl_entry_sorted
      http_entries_sorted dns_entry_rank port_entry_rank ssl_entry_rank http_entries_rank)

lemma entries_count:
  "length (dns_entry env h @ port_entry env h p @ ssl_entry env s h p @ http_entries env u)
     + (if port_outcome env h p = PortChecked False then 1 else 0)
   = (case dns_outcome env h of DnsFailure e \<Rightarrow> 1 | _ \<Rightarrow> 0)
   + (case port_outcome env h p of PortChecked True \<Rightarrow> 0 | other \<Rightarrow> 1)
   + (case ssl_outcome env s h p of Some (SslFailure e) \<Rightarrow> 1 | _ \<Rightarrow> 0)
   + (case http_outcome env u of HttpStatus c t n f \<Rightarrow> (if c \<ge> 400 then 1 else 0) | HttpError e \<Rightarrow> 1)"
  by (auto simp: dns_entry_def port_entry_def ssl_entry_def http_entries_def http_entry_def
      dns_outcome_def port_outcome_def ssl_outcome_def http_outcome_def
      split: sum.splits py_exception.splits prod.splits)

lemma analyze_Completed_D:
  assumes "analyze_url_connectivity env u = Inr (Completed r)"
  obtains p po where "urlparse env u = Inr p" and "p_port p = Inr po"
proof (cases "urlparse env u")
  case (Inl e)
  with analyze_parse_raises [of env u e] assms show ?thesis by simp
next
  case (Inr p)
  show ?thesis
  proof (cases "p_port p")
    case (Inl e)
    with Inr analyze_parse_raises [of env u e] assms show ?thesis by auto
  next
    case po: (Inr po)
    with Inr that show ?thesis by blast
  qed
qed

lemmas probe_defs = analyze_url_connectivity_def try_except_def py_bind_def initial_result_def
  dns_resolution_test_def port_connectivity_test_def ssl_certificate_test_def
  http_status_test_def http_entry_def default_port_def

text \<open>
  C5, amended. For every probe run that returns the full record, \<open>errors\<close> holds its
  entries in probe order: the DNS entry, then the port entry, then the TLS entry, then the
  HTTP entry, one for each sub-probe that raised and one for an HTTP status of 400 or
  more. A port that \<open>connect_ex\<close> finds closed is stored as \<open>success: False\<close> and adds no
  entry, so the length of \<open>errors\<close> is the number of failed sub-probes less that one.
  When all four sub-probes raise, the entries are DNS, port, TLS, HTTP in that order.
\<close>

theorem errors_in_probe_order:
  assumes "analyze_url_connectivity env u = Inr (Completed r)"
  shows "errors r = dns_entry env (hostname r) @ port_entry env (hostname r) (port r)
                  @ ssl_entry env (scheme r) (hostname r) (port r) @ http_entries env u
     \<and> sorted_wrt (<) (map entry_rank (errors r))
     \<and> length (errors r) + (if port_test r = Some (PortChecked False) then 1 else 0)
         = spec_failed_subprobes r
     \<and> (scheme r = ''https'' \<and> isl (gethostbyname env (hostname r))
          \<and> isl (connect_ex env (hostname r) (port r))
          \<and> isl (getpeercert env (hostname r) (port r)) \<and> isl (requests_get env u)
         \<longrightarrow> map entry_rank (errors r) = [0, 1, 2, 3])"
proof -
  from assms obtain p po where parsed: "urlparse env u = Inr p" "p_port p = Inr po"
    by (rule analyze_Completed_D)
  let ?h = "p_hostname p" and ?s = "p_scheme p" and ?pt = "default_port (p_scheme p) po"
  have count: "length (dns_entry env ?h @ port_entry env ?h ?pt @ ssl_entry env ?s ?h ?pt @ http_entries env u)
     + (if port_outcome env ?h ?pt = PortChecked False then 1 else 0)
   = (case dns_outcome env ?h of DnsFailure e \<Rightarrow> 1 | _ \<Rightarrow> 0)
   + (case port_outcome env ?h ?pt of PortChecked True \<Rightarrow> 0 | other \<Rightarrow> 1)
   + (case ssl_outcome env ?s ?h ?pt of Some (SslFailure e) \<Rightarrow> 1 | _ \<Rightarrow> 0)
   + (case http_outcome env u of HttpStatus c t n f \<Rightarrow> (if c \<ge> 400 then 1 else 0) | HttpError e \<Rightarrow> 1)"
    by (rule entries_count)
  have four: "?s = ''https'' \<and> isl (gethostbyname env ?h) \<and> isl (connect_ex env ?h ?pt)
          \<and> isl (getpeercert env ?h ?pt) \<and> isl (requests_get env u)
     \<longrightarrow> map entry_rank (dns_entry env ?h @ port_entry env ?h ?pt @ ssl_entry env ?s ?h ?pt @ http_entries env u) = [0, 1, 2, 3]"
    by (auto simp: dns_entry_def port_entry_def ssl_entry_def http_entries_def isl_def
        entry_rank_def split: py_exception.splits)
  from assms have r: "r = \<lparr>url = u, hostname = ?h, port = ?pt, scheme = ?s,
        port_test = Some (port_outcome env ?h ?pt),
        dns_resolution = Some (dns_outcome env ?h),
        ssl_info = ssl_outcome env ?s ?h ?pt,
        http_status = Some (http_outcome env u),
        response_time = time_outcome env u,
        errors = dns_entry env ?h @ port_entry env ?h ?pt @ ssl_entry env ?s ?h ?pt
               @ http_entries env u\<rparr>"
    unfolding analyze_completed [OF parsed] by simp
  show ?thesis
    unfolding r
    using count four entries_sorted [of env ?h ?pt ?s u]
    by (simp add: spec_failed_subprobes_def)
qed

theorem errors_in_probe_order_witness:
  "analyze_url_connectivity env_all_fail ''https://down.example'' = Inr (Completed all_fail_record)
   \<and> map entry_rank (errors all_fail_record) = [0, 1, 2, 3]
   \<and> length (errors all_fail_record) = spec_failed_subprobes all_fail_record"
proof -
  have ev: "analyze_url_connectivity env_all_fail ''https://down.example''
      = Inr (Completed all_fail_record)"
    by (simp add: probe_defs env_all_fail_def all_fail_record_def)
  note t = errors_in_probe_order [OF ev]
  have sel: "scheme all_fail_record = ''https''"
    "port_test all_fail_record \<noteq> Some (PortChecked False)"
    by (simp_all add: all_fail_record_def)
  have raised: "isl (gethostbyname env_all_fail h)" "isl (connect_ex env_all_fail h n)"
    "isl (getpeercert env_all_fail h n)" "isl (requests_get env_all_fail w)" for h n w
    by (simp_all add: env_all_fail_def)
  from t [THEN conjunct2, THEN conjunct2, THEN conjunct2] sel raised
  have ranks: "map entry_rank (errors all_fail_record) = [0, 1, 2, 3]" by blast
  from t [THEN conjunct2, THEN conjunct2, THEN conjunct1] sel
  have "length (errors all_fail_record) = spec_failed_subprobes all_fail_record" by simp
  with ev ranks show ?thesis by blast
qed

text \<open>
  C5 as stated fails: with the port closed and the TLS and HTTP sub-probes failing, three
  sub-probes have failed and \<open>errors\<close> has two entries.
\<close>

theorem closed_port_adds_no_entry:
  "analyze_url_connectivity env_closed_port ''https://localhost:8443''
     = Inr (Completed closed_port_record)
   \<and> spec_failed_subprobes closed_port_record = 3
   \<and> length (errors closed_port_record) = 2"
  by (simp add: probe_defs env_closed_port_def closed_port_record_def spec_failed_subprobes_def)

lemma ssl_prefix_rank: "prefix ''SSL Certificate issue: '' s \<Longrightarrow> entry_rank s = 2"
proof -
  assume "prefix ''SSL Certificate issue: '' s"
  then obtain m where "s = ''SSL Certificate issue: '' @ m" by (rule prefixE)
  then show ?thesis by (simp only: rank_ssl)
qed

lemma outcomes_ignore_getpeercert:
  "dns_outcome (env\<lparr>getpeercert := g\<rparr>) = dns_outcome env"
  "port_outcome (env\<lparr>getpeercert := g\<rparr>) = port_outcome env"
  "http_outcome (env\<lparr>getpeercert := g\<rparr>) = http_outcome env"
  "time_outcome (env\<lparr>getpeercert := g\<rparr>) = time_outcome env"
  "dns_entry (env\<lparr>getpeercert := g\<rparr>) = dns_entry env"
  "port_entry (env\<lparr>getpeercert := g\<rparr>) = port_entry env"
  "http_entries (env\<lparr>getpeercert := g\<rparr>) = http_entries env"
  by (simp_all add: fun_eq_iff dns_outcome_def port_outcome_def http_outcome_def time_outcome_def
      dns_entry_def port_entry_def http_entries_def)

text \<open>
  C6. When the scheme of the target is not \<open>https\<close>, the record the probe returns has
  \<open>ssl_info = None\<close> whatever the DNS, port and HTTP sub-probes did, no entry of
  \<open>errors\<close> is a TLS entry, and the TLS handshake is not consulted at all: the run is the
  same under every answer it could give.
\<close>

theorem plaintext_target_has_no_tls:
  assumes "analyze_url_connectivity env u = Inr (Completed r)" and "scheme r \<noteq> ''https''"
  shows "ssl_info r = None
     \<and> (\<forall>e \<in> set (errors r). \<not> prefix ''SSL Certificate issue: '' e)
     \<and> (\<forall>g. analyze_url_connectivity (env\<lparr>getpeercert := g\<rparr>) u
              = analyze_url_connectivity env u)"
proof -
  from assms(1) obtain p po where parsed: "urlparse env u = Inr p" "p_port p = Inr po"
    by (rule analyze_Completed_D)
  note full = analyze_completed [OF parsed]
  from assms(1) have sch: "scheme r = p_scheme p" and ssl: "ssl_info r = ssl_outcome env (p_scheme p) (p_hostname p) (default_port (p_scheme p) po)"
    and errs: "errors r = dns_entry env (p_hostname p)
               @ port_entry env (p_hostname p) (default_port (p_scheme p) po)
               @ ssl_entry env (p_scheme p) (p_hostname p) (default_port (p_scheme p) po)
               @ http_entries env u"
    unfolding full by auto
  from sch assms(2) have plain: "p_scheme p \<noteq> ''https''" by simp
  have "ssl_info r = None" using ssl plain by (simp add: ssl_outcome_def)
  moreover have "\<not> prefix ''SSL Certificate issue: '' e" if "e \<in> set (errors r)" for e
  proof
    assume "prefix ''SSL Certificate issue: '' e"
    then have "entry_rank e = 2" by (rule ssl_prefix_rank)
    moreover from that errs plain have "entry_rank e \<in> {0, 1, 3}"
      by (auto simp: ssl_entry_def dest: dns_entry_rank port_entry_rank http_entries_rank)
    ultimately show False by simp
  qed
  moreover have "analyze_url_connectivity (env\<lparr>getpeercert := g\<rparr>) u = analyze_url_connectivity env u" for g
  proof -
    have "urlparse (env\<lparr>getpeercert := g\<rparr>) u = Inr p" using parsed(1) by simp
    from analyze_completed [OF this parsed(2)] full plain
    show ?thesis by (simp add: outcomes_ignore_getpeercert ssl_outcome_def ssl_entry_def)
  qed
  ultimately show ?thesis by blast
qed

theorem plaintext_target_has_no_tls_witness:
  "analyze_url_connectivity env_plain_ok ''http://example.com'' = Inr (Completed plain_ok_record)
   \<and> scheme plain_ok_record \<noteq> ''https''
   \<and> ssl_info plain_ok_record = None"
proof -
  have ev: "analyze_url_connectivity env_plain_ok ''http://example.com'' = Inr (Completed plain_ok_record)"
    by (simp add: probe_defs env_plain_ok_def plain_ok_record_def)
  have sch: "scheme plain_ok_record \<noteq> ''https''" by (simp add: plain_ok_record_def)
  from plaintext_target_has_no_tls [OF ev sch] have "ssl_info plain_ok_record = None"
    by (rule conjunct1)
  with ev sch show ?thesis by blast
qed

text \<open>
  C7, amended. The probe never raises an \<open>Exception\<close> to its caller. When
  \<open>urlparse\<close> or the reading of the port raises, it returns the three-key record whose
  \<open>errors\<close> is the single message \<open>str(e)\<close> and which holds no sub-probe outcome. A
  URL that parses without raising, also one that parses to no hostname, gets the full
  record: every sub-probe has stored its own outcome there, and an exception inside any
  of them is an entry of \<open>errors\<close> and stops none of the others.
\<close>

theorem probe_never_raises:
  "(\<exists>res. analyze_url_connectivity env u = Inr res)
   \<and> (\<forall>e. urlparse env u = Inl e \<or> (\<exists>p. urlparse env u = Inr p \<and> p_port p = Inl e)
        \<longrightarrow> analyze_url_connectivity env u
              = Inr (AnalysisFailed u (''Analysis failed: '' @ str_exc e) [str_exc e]))
   \<and> (\<forall>p po. urlparse env u = Inr p \<and> p_port p = Inr po
        \<longrightarrow> (\<exists>r. analyze_url_connectivity env u = Inr (Completed r)
              \<and> dns_resolution r = Some (dns_outcome env (hostname r))
              \<and> port_test r = Some (port_outcome env (hostname r) (port r))
              \<and> ssl_info r = ssl_outcome env (scheme r) (hostname r) (port r)
              \<and> http_status r = Some (http_outcome env u)
              \<and> set (errors r) = set (dns_entry env (hostname r))
                    \<union> set (port_entry env (hostname r) (port r))
                    \<union> set (ssl_entry env (scheme r) (hostname r) (port r))
                    \<union> set (http_entries env u)))"
proof (intro conjI allI impI)
  show "\<exists>res. analyze_url_connectivity env u = Inr res"
  proof (cases "urlparse env u")
    case (Inl e)
    then show ?thesis using analyze_parse_raises [of env u e] by simp
  next
    case (Inr p)
    show ?thesis
    proof (cases "p_port p")
      case (Inl e)
      with Inr have "analyze_url_connectivity env u
          = Inr (AnalysisFailed u (''Analysis failed: '' @ str_exc e) [str_exc e])"
        by (intro analyze_parse_raises) simp
      then show ?thesis by simp
    next
      case po: (Inr po)
      from analyze_completed [OF Inr po] show ?thesis by simp
    qed
  qed
next
  fix e
  assume "urlparse env u = Inl e \<or> (\<exists>p. urlparse env u = Inr p \<and> p_port p = Inl e)"
  then show "analyze_url_connectivity env u
      = Inr (AnalysisFailed u (''Analysis failed: '' @ str_exc e) [str_exc e])"
    by (rule analyze_parse_raises)
next
  fix p po
  assume "urlparse env u = Inr p \<and> p_port p = Inr po"
  then have "urlparse env u = Inr p" "p_port p = Inr po" by simp_all
  from analyze_completed [OF this]
  show "\<exists>r. analyze_url_connectivity env u = Inr (Completed r)
              \<and> dns_resolution r = Some (dns_outcome env (hostname r))
              \<and> port_test r = Some (port_outcome env (hostname r) (port r))
              \<and> ssl_info r = ssl_outcome env (scheme r) (hostname r) (port r)
              \<and> http_status r = Some (http_outcome env u)
              \<and> set (errors r) = set (dns_entry env (hostname r))
                    \<union> set (port_entry env (hostname r) (port r))
                    \<union> set (ssl_entry env (scheme r) (hostname r) (port r))
                    \<union> set (http_entries env u)"
    by (simp add: Un_assoc)
qed

theorem probe_never_raises_witness:
  "analyze_url_connectivity env_bad_port ''http://example.com:99999''
     = Inr (AnalysisFailed ''http://example.com:99999''
              ''Analysis failed: Port out of range 0-65535'' [''Port out of range 0-65535''])"
proof -
  have raised: "urlparse env_bad_port ''http://example.com:99999'' = Inl (ValueError ''Port out of range 0-65535'')
      \<or> (\<exists>p. urlparse env_bad_port ''http://example.com:99999'' = Inr p
          \<and> p_port p = Inl (ValueError ''Port out of range 0-65535''))"
    by (simp add: env_bad_port_def)
  note handled = probe_never_raises [of env_bad_port "''http://example.com:99999''",
      THEN conjunct2, THEN conjunct1, rule_format, of "ValueError ''Port out of range 0-65535''"]
  have "analyze_url_connectivity env_bad_port ''http://example.com:99999''
     = Inr (AnalysisFailed ''http://example.com:99999''
         (''Analysis failed: '' @ str_exc (ValueError ''Port out of range 0-65535''))
         [str_exc (ValueError ''Port out of range 0-65535'')])"
    by (rule handled) (rule raised)
  then show ?thesis by simp
qed

text \<open>
  C7 as stated fails on a URL without a hostname: \<open>example.com\<close> parses without an
  exception, every sub-probe runs and fails on its own, and \<open>errors\<close> has three entries,
  none of them a parse failure.
\<close>

theorem missing_hostname_is_probed:
  "map_sum id p_hostname (urlparse env_no_hostname ''example.com'') = Inr None
   \<and> analyze_url_connectivity env_no_hostname ''example.com'' = Inr (Completed no_hostname_record)
   \<and> length (errors no_hostname_record) = 3"
  by (simp add: probe_defs env_no_hostname_def no_hostname_record_def)

section \<open>Properties of the fallback reasoner\<close>

lemma answer_body_bucket:
  "answer_body env d q = bucket_answer env d (spec_bucket (lower q))"
  by (auto simp add: answer_body_def spec_bucket_def Let_def)

lemma strip_no_space:
  assumes "s = a # t" and "\<not> is_space a" and "\<not> is_space (last s)"
  shows "strip s = s"
proof -
  from assms(1) have "s \<noteq> []" by simp
  then obtain b l where bl: "s = b @ [l]" by (metis rev_exhaust)
  have 1: "dropWhile is_space s = s" using assms(1,2) by simp
  from bl assms(3) have "dropWhile is_space (rev s) = rev s" by simp
  with 1 show ?thesis by (simp add: strip_def)
qed

lemma space_chars:
  "\<not> is_space CHR ''Y''" "\<not> is_space CHR ''U''" "\<not> is_space CHR ''.''"
  by (simp_all add: is_space_def)

lemma strip_very_slow: "strip (very_slow_answer ms) = very_slow_answer ms"
  by (rule strip_no_space [where a = "CHR ''Y''"]) (simp_all add: very_slow_answer_def space_chars)

lemma strip_slow: "strip (slow_answer ms) = slow_answer ms"
  by (rule strip_no_space [where a = "CHR ''Y''"]) (simp_all add: slow_answer_def space_chars)

lemma strip_acceptable: "strip (acceptable_answer ms) = acceptable_answer ms"
  by (rule strip_no_space [where a = "CHR ''Y''"]) (simp_all add: acceptable_answer_def space_chars)

lemma strip_unmeasured: "strip unmeasured_answer = unmeasured_answer"
  by (rule strip_no_space [where a = "CHR ''U''"]) (simp_all add: unmeasured_answer_def space_chars apostrophe_def)

lemma nonempty_answers:
  "very_slow_answer ms \<noteq> []" "slow_answer ms \<noteq> []" "acceptable_answer ms \<noteq> []"
  "unmeasured_answer \<noteq> []"
  by (simp_all add: very_slow_answer_def slow_answer_def acceptable_answer_def unmeasured_answer_def)

lemma tiers_distinct:
  "very_slow_answer a \<noteq> slow_answer b" "very_slow_answer a \<noteq> acceptable_answer b"
  "very_slow_answer a \<noteq> unmeasured_answer" "slow_answer a \<noteq> acceptable_answer b"
  "slow_answer a \<noteq> unmeasured_answer" "acceptable_answer a \<noteq> unmeasured_answer"
  by (simp_all add: very_slow_answer_def slow_answer_def acceptable_answer_def unmeasured_answer_def)

lemma performance_answer_tiers:
  "performance_answer d =
     (case response_time d of
        None \<Rightarrow> unmeasured_answer
      | Some ms \<Rightarrow>
          (if ms \<le> 0 then unmeasured_answer
           else if ms \<le> 1000 then acceptable_answer ms
           else if ms \<le> 2000 then slow_answer ms
           else very_slow_answer ms))"
  by (auto simp: performance_answer_def response_time_ms_def Let_def split: option.splits)

lemma strip_performance: "strip (performance_answer d) = performance_answer d"
  by (simp add: performance_answer_tiers strip_very_slow strip_slow strip_acceptable strip_unmeasured
      split: option.splits)

lemma performance_nonempty: "performance_answer d \<noteq> []"
  by (simp add: performance_answer_tiers nonempty_answers split: option.splits)

lemma performance_question:
  assumes "spec_bucket (lower q) = Performance"
  shows "generate_answer_only env d q = performance_answer d"
  using assms
  by (simp add: generate_answer_only_def answer_body_bucket strip_performance performance_nonempty)

lemma question_gets_answer:
  "q \<noteq> [] \<Longrightarrow> generate_url_fallback env now d (Some q) = generate_answer_only env d q"
  by (simp add: generate_url_fallback_def)














lemma why_slow: "spec_bucket (lower ''why is this slow?'') = Performance"
  by code_simp

lemma severe_text_has_no_ssl:
  "\<not> py_in ''ssl'' (lower (very_slow_answer 2500))"
  "\<not> py_in ''certificate'' (lower (very_slow_answer 2500))"
  "\<not> py_in ''https'' (lower (very_slow_answer 2500))"
  by code_simp+

text \<open>
  C4, amended. For a question of the performance bucket the answer is chosen by
  \<open>response_time\<close>: above 2000 ms the severe text, above 1000 and up to 2000 ms the
  moderate text, above 0 and up to 1000 ms the good text, and with no measurement, or one
  that is not positive, the possible-timeout text; the four texts differ. The record with
  2500 ms, no errors and a valid certificate, asked \<open>why is this slow?\<close>, gets the severe
  text, which mentions neither SSL nor certificates nor HTTPS.
\<close>

theorem performance_tiers:
  assumes "spec_bucket (lower q) = Performance"
  shows "generate_answer_only env d q =
           (case response_time d of
              None \<Rightarrow> unmeasured_answer
            | Some ms \<Rightarrow>
                (if ms \<le> 0 then unmeasured_answer
                 else if ms \<le> 1000 then acceptable_answer ms
                 else if ms \<le> 2000 then slow_answer ms
                 else very_slow_answer ms))
     \<and> distinct [very_slow_answer a, slow_answer b, acceptable_answer c, unmeasured_answer]
     \<and> generate_url_fallback env now slow_record (Some ''why is this slow?'') = very_slow_answer 2500
     \<and> \<not> py_in ''ssl'' (lower (very_slow_answer 2500))
     \<and> \<not> py_in ''certificate'' (lower (very_slow_answer 2500))
     \<and> \<not> py_in ''https'' (lower (very_slow_answer 2500))"
proof -
  have "generate_answer_only env slow_record ''why is this slow?'' = performance_answer slow_record"
    using why_slow by (rule performance_question)
  moreover have "performance_answer slow_record = very_slow_answer 2500"
    by (simp add: performance_answer_tiers slow_record_def)
  ultimately have "generate_url_fallback env now slow_record (Some ''why is this slow?'') = very_slow_answer 2500"
    by (simp add: question_gets_answer)
  moreover have "generate_answer_only env d q = performance_answer d"
    using assms by (rule performance_question)
  ultimately show ?thesis
    using severe_text_has_no_ssl tiers_distinct(1) [of a b] tiers_distinct(2) [of a c]
      tiers_distinct(3) [of a] tiers_distinct(4) [of b c] tiers_distinct(5) [of b]
      tiers_distinct(6) [of c]
    by (simp add: performance_answer_tiers)
qed

theorem performance_tiers_witness:
  "spec_bucket (lower ''why is this slow?'') = Performance
   \<and> generate_answer_only env_https_ok slow_record ''why is this slow?'' = very_slow_answer 2500
   \<and> response_time slow_record = Some 2500 \<and> errors slow_record = []
   \<and> ssl_info slow_record = Some (SslSuccess example_certificate)"
proof -
  from performance_tiers [OF why_slow, of env_https_ok slow_record]
  have "generate_answer_only env_https_ok slow_record ''why is this slow?'' =
           (case response_time slow_record of
              None \<Rightarrow> unmeasured_answer
            | Some ms \<Rightarrow>
                (if ms \<le> 0 then unmeasured_answer
                 else if ms \<le> 1000 then acceptable_answer ms
                 else if ms \<le> 2000 then slow_answer ms
                 else very_slow_answer ms))"
    by (rule conjunct1)
  then show ?thesis using why_slow by (simp add: slow_record_def https_ok_record_def)
qed

text \<open>
  C4 as stated fails at exactly 1000 ms: the specification's tiers give the moderate text,
  the code the good one.
\<close>

theorem latency_1000_is_acceptable:
  "response_time boundary_record = Some 1000
   \<and> generate_answer_only env_https_ok boundary_record ''why is this slow?'' = acceptable_answer 1000
   \<and> spec_performance_answer boundary_record = slow_answer 1000
   \<and> acceptable_answer 1000 \<noteq> slow_answer 1000"
proof -
  have "generate_answer_only env_https_ok boundary_record ''why is this slow?''
      = performance_answer boundary_record"
    using why_slow by (rule performance_question)
  moreover have "performance_answer boundary_record = acceptable_answer 1000"
    by (simp add: performance_answer_tiers boundary_record_def)
  moreover have "spec_performance_answer boundary_record = slow_answer 1000"
    by (simp add: spec_performance_answer_def boundary_record_def)
  ultimately show ?thesis using tiers_distinct(4) [of 1000 1000]
    by (simp add: boundary_record_def)
qed

section \<open>Properties of the reports\<close>

lemma probed_fields:
  assumes "analyze_url_connectivity env u = Inr (Completed d)"
  shows "dns_resolution d \<noteq> None" and "port_test d \<noteq> None" and "http_status d \<noteq> None"
    and "ssl_info d = None \<longleftrightarrow> scheme d \<noteq> ''https''" and "url d = u"
proof -
  from assms obtain p po where parsed: "urlparse env u = Inr p" "p_port p = Inr po"
    by (rule analyze_Completed_D)
  from assms show "dns_resolution d \<noteq> None" and "port_test d \<noteq> None" and "http_status d \<noteq> None"
    and "ssl_info d = None \<longleftrightarrow> scheme d \<noteq> ''https''" and "url d = u"
    unfolding analyze_completed [OF parsed] by (auto simp: ssl_outcome_def)
qed

lemma priority_line:
  "priority_assessment errs =
     tier_glyph (spec_priority (length errs)) @ '' **Priority: '' @ spec_priority (length errs)
     @ ''** - '' @ tier_remark (spec_priority (length errs)) @ newline"
  by (simp add: priority_assessment_def spec_priority_def tier_glyph_def tier_remark_def)

lemma full_report_eq:
  assumes "dns_line d = Inr dns" and "\<not> truthy q"
  shows "generate_url_fallback env now d q =
           report_header now d @ dns @ port_line d @ ssl_line d @ http_line d
           @ response_time_line d @ issues_found d @ troubleshooting_steps
           @ priority_assessment (errors d) @ report_footer"
  using assms
  by (cases q) (simp_all add: generate_url_fallback_def full_report_def py_bind_def)

lemma dns_line_returns: "dns_resolution d \<noteq> None \<Longrightarrow> \<exists>dns. dns_line d = Inr dns"
  by (auto simp: dns_line_def split: option.splits dns_result.splits)

lemma cli_ssl_line_returns: "ssl_info d \<noteq> None \<Longrightarrow> \<exists>ssl. cli_ssl_line d = Inr ssl"
  by (auto simp: cli_ssl_line_def split: option.splits ssl_result.splits)

lemma cli_http_line_returns: "http_status d \<noteq> None \<Longrightarrow> \<exists>http. cli_http_line d = Inr http"
  by (auto simp: cli_http_line_def split: option.splits http_result.splits)

lemma cli_report_eq:
  assumes "dns_line d = Inr dns" and "cli_ssl_line d = Inr ssl" and "cli_http_line d = Inr http"
    and "\<not> truthy q"
  shows "cli_generate_fallback_analysis now u q d =
           Inr (cli_report_header now u @ dns @ port_line d @ ssl @ http
                @ cli_response_time_line d @ issues_found d @ cli_troubleshooting_steps
                @ priority_assessment (errors d) @ cli_report_footer)"
  using assms
  by (cases q) (simp_all add: cli_generate_fallback_analysis_def py_bind_def)

lemma https_ok_run:
  "analyze_url_connectivity env_https_ok ''https://example.com'' = Inr (Completed https_ok_record)"
  by (simp add: probe_defs env_https_ok_def https_ok_record_def)

text \<open>
  C1. For every record the probe returns, the priority line of the report without a
  question is a function of the number of errors alone: Low for none, Medium for one or
  two, High for three or more. The report of \<open>devops-analyzer.py\<close> always ends with
  that line and the footer; the one of \<open>analyze_url.py\<close> does whenever it is produced,
  which it is for every \<open>https\<close> target.
\<close>

theorem priority_by_error_count:
  assumes "analyze_url_connectivity env u = Inr (Completed d)" and "\<not> truthy q"
  shows "priority_assessment (errors d) =
           tier_glyph (spec_priority (length (errors d))) @ '' **Priority: ''
           @ spec_priority (length (errors d)) @ ''** - ''
           @ tier_remark (spec_priority (length (errors d))) @ newline
     \<and> (\<exists>dns. dns_line d = Inr dns \<and> generate_url_fallback env now d q =
           report_header now d @ dns @ port_line d @ ssl_line d @ http_line d
           @ response_time_line d @ issues_found d @ troubleshooting_steps
           @ priority_assessment (errors d) @ report_footer)
     \<and> (scheme d = ''https'' \<longrightarrow>
          (\<exists>dns ssl http. dns_line d = Inr dns \<and> cli_ssl_line d = Inr ssl
             \<and> cli_http_line d = Inr http \<and> cli_generate_fallback_analysis now u q d =
             Inr (cli_report_header now u @ dns @ port_line d @ ssl @ http
                  @ cli_response_time_line d @ issues_found d @ cli_troubleshooting_steps
                  @ priority_assessment (errors d) @ cli_report_footer)))
     \<and> spec_priority 0 = ''Low'' \<and> spec_priority 1 = ''Medium''
     \<and> spec_priority 2 = ''Medium'' \<and> spec_priority 3 = ''High''
     \<and> (\<forall>n \<ge> 3. spec_priority n = ''High'')"
proof -
  note f = probed_fields [OF assms(1)]
  from f(1) obtain dns where dns: "dns_line d = Inr dns" using dns_line_returns by blast
  from f(3) obtain http where http: "cli_http_line d = Inr http" using cli_http_line_returns by blast
  have cli: "\<exists>dns ssl http. dns_line d = Inr dns \<and> cli_ssl_line d = Inr ssl
             \<and> cli_http_line d = Inr http \<and> cli_generate_fallback_analysis now u q d =
             Inr (cli_report_header now u @ dns @ port_line d @ ssl @ http
                  @ cli_response_time_line d @ issues_found d @ cli_troubleshooting_steps
                  @ priority_assessment (errors d) @ cli_report_footer)"
    if "scheme d = ''https''"
  proof -
    from that f(4) have "ssl_info d \<noteq> None" by simp
    then obtain ssl where ssl: "cli_ssl_line d = Inr ssl" using cli_ssl_line_returns by blast
    from cli_report_eq [OF dns ssl http assms(2)] dns ssl http show ?thesis by blast
  qed
  have tiers: "spec_priority 0 = ''Low'' \<and> spec_priority 1 = ''Medium''
     \<and> spec_priority 2 = ''Medium'' \<and> spec_priority 3 = ''High''
     \<and> (\<forall>n \<ge> 3. spec_priority n = ''High'')"
    by (simp add: spec_priority_def)
  from full_report_eq [OF dns assms(2)] dns
  have dev: "\<exists>dns. dns_line d = Inr dns \<and> generate_url_fallback env now d q =
           report_header now d @ dns @ port_line d @ ssl_line d @ http_line d
           @ response_time_line d @ issues_found d @ troubleshooting_steps
           @ priority_assessment (errors d) @ report_footer"
    by blast
  from dev cli tiers show ?thesis
    by (intro conjI impI priority_line) blast+
qed

theorem priority_by_error_count_witness:
  "analyze_url_connectivity env_https_ok ''https://example.com'' = Inr (Completed https_ok_record)
   \<and> \<not> truthy None
   \<and> priority_assessment (errors https_ok_record)
       = green_circle @ '' **Priority: Low** - No critical issues'' @ newline
   \<and> (\<exists>before. generate_url_fallback env_https_ok ''2026-01-01T00:00:00'' https_ok_record None
         = before @ priority_assessment (errors https_ok_record) @ report_footer)"
proof -
  have nq: "\<not> truthy None" by simp
  note t = priority_by_error_count [OF https_ok_run nq, where now = "''2026-01-01T00:00:00''"]
  from t have "priority_assessment (errors https_ok_record)
       = green_circle @ '' **Priority: Low** - No critical issues'' @ newline"
    by (simp add: https_ok_record_def spec_priority_def tier_glyph_def tier_remark_def)
  moreover from t [THEN conjunct2, THEN conjunct1]
  have "\<exists>before. generate_url_fallback env_https_ok ''2026-01-01T00:00:00'' https_ok_record None
         = before @ priority_assessment (errors https_ok_record) @ report_footer"
    by (metis append.assoc)
  ultimately show ?thesis using https_ok_run nq by blast
qed

lemma none_ssl_raises:
  assumes "ssl_info d = None"
  shows "url_summary d = Inl none_has_no_get"
    and "create_url_prompt d q = Inl none_has_no_get"
    and "web_generate_fallback_analysis now u d = Inl none_has_no_get"
    and "cli_generate_fallback_analysis now u q d = Inl none_has_no_get"
proof -
  have dns: "dns_summary d = Inl none_has_no_get \<or> (\<exists>t. dns_summary d = Inr t)"
    by (auto simp: dns_summary_def split: option.splits dns_result.splits)
  have dl: "dns_line d = Inl none_has_no_get \<or> (\<exists>t. dns_line d = Inr t)"
    by (auto simp: dns_line_def split: option.splits dns_result.splits)
  from assms have ssl: "ssl_summary d = Inl none_has_no_get" "cli_ssl_line d = Inl none_has_no_get"
    by (simp_all add: ssl_summary_def cli_ssl_line_def)
  from dns ssl show s: "url_summary d = Inl none_has_no_get"
    by (auto simp: url_summary_def py_bind_def)
  then show "create_url_prompt d q = Inl none_has_no_get"
    by (simp add: create_url_prompt_def py_bind_def)
  from dl ssl show "web_generate_fallback_analysis now u d = Inl none_has_no_get"
    by (auto simp: web_generate_fallback_analysis_def py_bind_def)
  from dl ssl show "cli_generate_fallback_analysis now u q d = Inl none_has_no_get"
    by (auto simp: cli_generate_fallback_analysis_def py_bind_def)
qed

lemma cli_ai_failed:
  "url_summary d = Inl e \<Longrightarrow> (\<forall>m. e \<noteq> RequestsTimeout m)
    \<Longrightarrow> cli_get_ai_analysis env u q d = JsonString (''AI analysis failed: '' @ str_exc e)"
  by (cases e) (simp_all add: cli_get_ai_analysis_def py_bind_def)

lemma devops_ai_failed:
  "create_url_prompt d q = Inl (AttributeError m)
    \<Longrightarrow> get_ai_analysis env d q = JsonString (''AI analysis failed: '' @ m)"
  by (simp add: get_ai_analysis_def py_bind_def)

text \<open>
  C10 fails on the code. The record of a plaintext target holds \<open>ssl_info = None\<close> under
  a key that is present, so \<open>data.get('ssl_info', {})\<close> is \<open>None\<close> and the SSL check of
  the summary and of the web report raises \<open>AttributeError\<close> instead of rendering a line:
  \<open>get_ai_analysis\<close> returns the text of its handler and nothing is sent to the service,
  and the web report is not produced. The report of \<open>devops-analyzer.py\<close> tests
  \<open>data.get('ssl_info')\<close> first and prints the line for HTTP.
\<close>

theorem plain_http_summary_raises:
  "ssl_info plain_ok_record = None
   \<and> errors plain_ok_record = []
   \<and> url_summary plain_ok_record = Inl none_has_no_get
   \<and> cli_get_ai_analysis env_plain_ok ''http://example.com'' None plain_ok_record
       = JsonString (''AI analysis failed: '' @ str_exc none_has_no_get)
   \<and> get_ai_analysis env_plain_ok plain_ok_record None
       = JsonString (''AI analysis failed: '' @ str_exc none_has_no_get)
   \<and> web_generate_fallback_analysis ''2026-01-01T00:00:00'' ''http://example.com''
         plain_ok_record = Inl none_has_no_get
   \<and> ssl_line plain_ok_record
       = white_circle @ '' **SSL Certificate:** Not applicable (HTTP)'' @ newline"
proof -
  have n: "ssl_info plain_ok_record = None" by (simp add: plain_ok_record_def)
  note r = none_ssl_raises [OF n]
  have "cli_get_ai_analysis env_plain_ok ''http://example.com'' None plain_ok_record
       = JsonString (''AI analysis failed: '' @ str_exc none_has_no_get)"
    by (rule cli_ai_failed [OF r(1)]) (simp add: none_has_no_get_def)
  moreover have "get_ai_analysis env_plain_ok plain_ok_record None
       = JsonString (''AI analysis failed: '' @ str_exc none_has_no_get)"
    using devops_ai_failed [OF r(2) [unfolded none_has_no_get_def]]
    by (simp add: none_has_no_get_def)
  moreover have "ssl_line plain_ok_record
       = white_circle @ '' **SSL Certificate:** Not applicable (HTTP)'' @ newline"
    by (simp add: ssl_line_def n)
  moreover have "errors plain_ok_record = []" by (simp add: plain_ok_record_def)
  ultimately show ?thesis using n r(1) r(3) by simp
qed

lemma header_split:
  "report_header now d =
     (newline @ ''# URL Analysis Report'' @ newline @ newline @ ''**URL:** '' @ url d @ newline
      @ ''**Analyzed:** '') @ now @
     (newline @ newline @ ''## '' @ magnifier @ '' Test Results'' @ newline @ newline
      @ ''### Connectivity Tests'' @ newline)"
  by (simp add: report_header_def)

lemma cli_header_split:
  "cli_report_header now u =
     (newline @ ''# URL Analysis Report'' @ newline @ newline @ ''**URL:** '' @ u @ newline
      @ ''**Analyzed:** '') @ now @
     (newline @ newline @ ''## '' @ magnifier @ '' Test Results'' @ newline @ newline
      @ ''### Connectivity Tests'' @ newline)"
  by (simp add: cli_report_header_def)

lemma error_report_split:
  "\<exists>before after. \<forall>now. error_report now d q e = before @ now @ after"
  unfolding error_report_def Let_def
  by (rule exI [where x = "newline @ ''# URL Analysis Report - Error'' @ newline @ newline
        @ ''**URL:** '' @ url d @ newline @ ''**Analyzed:** ''"], rule exI) (simp)

lemma full_report_split:
  "\<exists>before after. \<forall>now. full_report now d = map_sum id (\<lambda>rest. before @ now @ rest) after"
proof (cases "dns_line d")
  case (Inl e)
  then have "full_report now d = map_sum id (\<lambda>rest. [] @ now @ rest) (Inl e)" for now
    by (simp add: full_report_def py_bind_def)
  then show ?thesis by blast
next
  case (Inr dns)
  let ?b = "newline @ ''# URL Analysis Report'' @ newline @ newline @ ''**URL:** '' @ url d @ newline
      @ ''**Analyzed:** ''"
  let ?a = "(newline @ newline @ ''## '' @ magnifier @ '' Test Results'' @ newline @ newline
      @ ''### Connectivity Tests'' @ newline) @ dns @ port_line d @ ssl_line d @ http_line d
      @ response_time_line d @ issues_found d @ troubleshooting_steps
      @ priority_assessment (errors d) @ report_footer"
  from Inr have "full_report now d = map_sum id (\<lambda>rest. ?b @ now @ rest) (Inr ?a)" for now
    unfolding full_report_def py_bind_def header_split by simp
  then show ?thesis by blast
qed

lemma cli_report_split:
  "\<exists>before after. \<forall>now.
      cli_generate_fallback_analysis now u q d = map_sum id (\<lambda>rest. before @ now @ rest) after"
proof -
  let ?b = "newline @ ''# URL Analysis Report'' @ newline @ newline @ ''**URL:** '' @ u @ newline
      @ ''**Analyzed:** ''"
  let ?h = "newline @ newline @ ''## '' @ magnifier @ '' Test Results'' @ newline @ newline
      @ ''### Connectivity Tests'' @ newline"
  let ?rest = "py_bind (dns_line d) (\<lambda>dns.
     py_bind (cli_ssl_line d) (\<lambda>ssl.
     py_bind (cli_http_line d) (\<lambda>http.
     py_bind (case q of
                None \<Rightarrow> Inr []
              | Some question \<Rightarrow>
                  (if question \<noteq> [] then cli_question_section d question else Inr []))
       (\<lambda>answer.
     Inr (?h @ dns @ port_line d @ ssl @ http @ cli_response_time_line d
          @ issues_found d @ answer @ cli_troubleshooting_steps
          @ priority_assessment (errors d) @ cli_report_footer)))))"
  have "cli_generate_fallback_analysis now u q d = map_sum id (\<lambda>rest. ?b @ now @ rest) ?rest" for now
    unfolding cli_generate_fallback_analysis_def py_bind_def cli_header_split
    by (simp split: sum.splits)
  then show ?thesis by blast
qed

text \<open>
  C8, amended. The fallback reasoner is a function of the record, the question and the
  reading of the clock. With a non-empty question the answer does not depend on the clock.
  Without one, the report carries the time of the run in its header and is otherwise the
  same text on every run; so is every report of \<open>analyze_url.py\<close>, with or without a
  question.
\<close>

theorem clock_only_in_report_header:
  "(truthy q \<longrightarrow> generate_url_fallback env now d q = generate_url_fallback env now' d q)
   \<and> (\<exists>before after. \<forall>now.
         \<not> truthy q \<longrightarrow> generate_url_fallback env now d q = before @ now @ after)
   \<and> (\<exists>before after. \<forall>now.
         cli_generate_fallback_analysis now u q d
           = map_sum id (\<lambda>rest. before @ now @ rest) after)"
proof (intro conjI impI)
  assume "truthy q"
  then show "generate_url_fallback env now d q = generate_url_fallback env now' d q"
    by (cases q) (simp_all add: generate_url_fallback_def)
next
  from full_report_split obtain b a where
    fr: "\<And>now. full_report now d = map_sum id (\<lambda>rest. b @ now @ rest) a" by blast
  show "\<exists>before after. \<forall>now.
         \<not> truthy q \<longrightarrow> generate_url_fallback env now d q = before @ now @ after"
  proof (cases a)
    case (Inl e)
    from error_report_split obtain b' a' where
      er: "\<And>now. error_report now d q e = b' @ now @ a'" by blast
    have "\<not> truthy q \<longrightarrow> generate_url_fallback env now d q = b' @ now @ a'" for now
      using fr [of now] Inl er [of now]
      by (cases q) (auto simp add: generate_url_fallback_def)
    then show ?thesis by blast
  next
    case (Inr rest)
    have "\<not> truthy q \<longrightarrow> generate_url_fallback env now d q = b @ now @ rest" for now
      using fr [of now] Inr
      by (cases q) (simp_all add: generate_url_fallback_def)
    then show ?thesis by blast
  qed
next
  show "\<exists>before after. \<forall>now.
         cli_generate_fallback_analysis now u q d
           = map_sum id (\<lambda>rest. before @ now @ rest) after"
    by (rule cli_report_split)
qed

theorem clock_only_in_report_header_witness:
  "truthy (Some ''why is this slow?'')
   \<and> generate_url_fallback env_https_ok ''2026-01-01T00:00:00'' slow_record (Some ''why is this slow?'')
     = generate_url_fallback env_https_ok ''2026-01-01T00:00:01'' slow_record (Some ''why is this slow?'')"
proof -
  have t: "truthy (Some ''why is this slow?'')" by simp
  from clock_only_in_report_header [of "Some ''why is this slow?''" env_https_ok
      "''2026-01-01T00:00:00''" slow_record "''2026-01-01T00:00:01''", THEN conjunct1] t
  show ?thesis by blast
qed

lemma report_at:
  "generate_url_fallback env now https_ok_record None =
     (newline @ ''# URL Analysis Report'' @ newline @ newline @ ''**URL:** ''
      @ url https_ok_record @ newline @ ''**Analyzed:** '') @ now @
     (newline @ newline @ ''## '' @ magnifier @ '' Test Results'' @ newline @ newline
      @ ''### Connectivity Tests'' @ newline @ check_mark @ '' **DNS Resolution:** ''
      @ ''93.184.216.34'' @ newline @ port_line https_ok_record @ ssl_line https_ok_record
      @ http_line https_ok_record @ response_time_line https_ok_record
      @ issues_found https_ok_record @ troubleshooting_steps
      @ priority_assessment (errors https_ok_record) @ report_footer)"
proof -
  have "dns_line https_ok_record
      = Inr (check_mark @ '' **DNS Resolution:** '' @ ''93.184.216.34'' @ newline)"
    by (simp add: dns_line_def https_ok_record_def)
  from full_report_eq [OF this, of None env now] show ?thesis
    unfolding header_split by simp
qed

text \<open>
  C8 as stated fails for the report without a question: two runs on the same record, one
  second apart, give different text.
\<close>

theorem report_changes_with_the_clock:
  "generate_url_fallback env_https_ok ''2026-01-01T00:00:00'' https_ok_record None
     \<noteq> generate_url_fallback env_https_ok ''2026-01-01T00:00:01'' https_ok_record None"
  unfolding report_at by (simp only: same_append_eq append_same_eq) simp

section \<open>Properties of the command lines\<close>

lemma devops_soft_failure_falls_back:
  assumes "get_ai_analysis env d q = JsonString text"
    and "list_ex (\<lambda>keyword. py_in keyword (lower text)) failure_keywords"
  shows "devops_analysis env now False d q = Inr (generate_fallback_analysis env now d q)"
  using assms by (simp add: devops_analysis_def Let_def lower_of_def py_bind_def)

lemma https_ok_summary: "\<exists>s. url_summary https_ok_record = Inr s"
  by (simp add: url_summary_def py_bind_def dns_summary_def ssl_summary_def http_summary_def
      https_ok_record_def)

lemma status_503_text:
  "cli_get_ai_analysis env_status_503 u q https_ok_record
     = JsonString ''AI API returned status 503: Service Unavailable''"
  "get_ai_analysis env_status_503 https_ok_record q
     = JsonString ''AI API returned status 503: Service Unavailable''"
proof -
  from https_ok_summary obtain s where s: "url_summary https_ok_record = Inr s" by blast
  have n: "str_int 503 = ''503''" by code_simp
  show "cli_get_ai_analysis env_status_503 u q https_ok_record
     = JsonString ''AI API returned status 503: Service Unavailable''"
    by (simp add: cli_get_ai_analysis_def py_bind_def s env_status_503_def n)
  show "get_ai_analysis env_status_503 https_ok_record q
     = JsonString ''AI API returned status 503: Service Unavailable''"
    by (simp add: get_ai_analysis_def create_url_prompt_def py_bind_def s env_status_503_def n)
qed

lemma status_keyword:
  "list_ex (\<lambda>keyword. py_in keyword (lower ''AI API returned status 503: Service Unavailable''))
     failure_keywords"
  "\<not> py_in ''timeout'' (lower ''AI API returned status 503: Service Unavailable'')"
  "\<not> py_in ''failed'' (lower ''AI API returned status 503: Service Unavailable'')"
  by code_simp+

lemma cli_report_starts_with_newline:
  "cli_generate_fallback_analysis now u q d = Inr r \<Longrightarrow> \<exists>t. r = CHR 0x0A # t"
  by (auto simp: cli_generate_fallback_analysis_def py_bind_def cli_report_header_def newline_def
      split: sum.splits)

text \<open>
  C2 fails on \<open>analyze_url.py\<close>. Its \<open>main\<close> looks for \<open>timeout\<close> and \<open>failed\<close>
  only, so the text \<open>AI API returned status 503: ...\<close>, which its own
  \<open>get_ai_analysis\<close> returns for a non-success status and which contains
  \<open>api returned status\<close>, is printed as the analysis. \<open>devops-analyzer.py\<close> looks for
  all five keywords (lemma \<open>devops_soft_failure_falls_back\<close>) and returns the fallback
  report on the same input.
\<close>

theorem cli_prints_status_text:
  "cli_get_ai_analysis env_status_503 ''https://example.com'' None https_ok_record
     = JsonString ''AI API returned status 503: Service Unavailable''
   \<and> list_ex (\<lambda>keyword. py_in keyword (lower ''AI API returned status 503: Service Unavailable''))
        failure_keywords
   \<and> cli_analysis env_status_503 ''2026-01-01T00:00:00'' False ''https://example.com'' None
        https_ok_record = Inr ''AI API returned status 503: Service Unavailable''
   \<and> cli_generate_fallback_analysis ''2026-01-01T00:00:00'' ''https://example.com'' None
        https_ok_record \<noteq> Inr ''AI API returned status 503: Service Unavailable''
   \<and> devops_analysis env_status_503 ''2026-01-01T00:00:00'' False https_ok_record None
        = Inr (generate_fallback_analysis env_status_503 ''2026-01-01T00:00:00'' https_ok_record
                 None)"
proof -
  have a: "cli_analysis env_status_503 ''2026-01-01T00:00:00'' False ''https://example.com'' None
        https_ok_record = Inr ''AI API returned status 503: Service Unavailable''"
    using status_keyword(2,3)
    by (simp add: cli_analysis_def try_except_def status_503_text Let_def lower_of_def
        text_of_def py_bind_def)
  have b: "cli_generate_fallback_analysis ''2026-01-01T00:00:00'' ''https://example.com'' None
        https_ok_record \<noteq> Inr ''AI API returned status 503: Service Unavailable''"
  proof
    assume "cli_generate_fallback_analysis ''2026-01-01T00:00:00'' ''https://example.com'' None
        https_ok_record = Inr ''AI API returned status 503: Service Unavailable''"
    then have "\<exists>t. ''AI API returned status 503: Service Unavailable'' = CHR 0x0A # t"
      by (rule cli_report_starts_with_newline)
    then show False by simp
  qed
  have c: "devops_analysis env_status_503 ''2026-01-01T00:00:00'' False https_ok_record None
        = Inr (generate_fallback_analysis env_status_503 ''2026-01-01T00:00:00'' https_ok_record
                 None)"
    by (rule devops_soft_failure_falls_back [OF status_503_text(2) status_keyword(1)])
  from a b c status_503_text(1) status_keyword(1) show ?thesis by blast
qed

lemma devops_basic_results_ok:
  "dns_resolution d \<noteq> None \<Longrightarrow> devops_basic_results d = Inr ()"
  by (auto simp: devops_basic_results_def split: option.splits)

lemma devops_exit_by_analysis:
  assumes "analyze_url_connectivity env u = Inr (Completed d)"
  shows "exit_code (devops_main_url env now u q no_ai)
           = (case devops_analysis env now no_ai d q of Inr analysis \<Rightarrow> 0 | Inl e \<Rightarrow> 1)"
  using assms devops_basic_results_ok [OF probed_fields(1) [OF assms]]
  by (simp add: devops_main_url_def py_bind_def split: sum.splits)

lemma cli_exit_by_errors:
  assumes "analyze_url_connectivity env (normalize_url a) = Inr (Completed d)"
    and "cli_main env now a q no_ai = Inr out"
  shows "exit_code out = (if errors d \<noteq> [] then 1 else 0)"
  using assms
  by (auto simp: cli_main_def py_bind_def Let_def split: sum.splits)

lemma all_fail_run:
  "analyze_url_connectivity env_all_fail ''https://down.example'' = Inr (Completed all_fail_record)"
  by (simp add: probe_defs env_all_fail_def all_fail_record_def)

lemma all_fail_ai_text:
  "get_ai_analysis env_all_fail all_fail_record None
     = JsonString ''AI API connection failed - using fallback analysis: Connection refused''"
proof -
  have "\<exists>s. url_summary all_fail_record = Inr s"
    by (simp add: url_summary_def py_bind_def dns_summary_def ssl_summary_def http_summary_def
        all_fail_record_def)
  then obtain s where s: "url_summary all_fail_record = Inr s" by blast
  show ?thesis
    by (simp add: get_ai_analysis_def create_url_prompt_def py_bind_def s env_all_fail_def
        unreachable_service_def)
qed

lemma connection_failed_keyword:
  "list_ex (\<lambda>keyword. py_in keyword
       (lower ''AI API connection failed - using fallback analysis: Connection refused''))
     failure_keywords"
  by code_simp

text \<open>
  C9 fails on \<open>devops-analyzer.py\<close>. With all four sub-probes failing the probe run
  completes, \<open>errors\<close> has four entries, and the \<open>url\<close> subcommand still returns 0, with
  the fallback forced by \<open>--no-ai\<close> and also with the analysis service unreachable:
  line 1065 is \<open>return 0\<close> whatever the record holds, where \<open>main\<close> of
  \<open>analyze_url.py\<close> returns \<open>1 if errors else 0\<close>.
\<close>

theorem devops_exit_ignores_errors:
  "analyze_url_connectivity env_all_fail ''https://down.example'' = Inr (Completed all_fail_record)
   \<and> length (errors all_fail_record) = 4
   \<and> exit_code (devops_main_url env_all_fail ''2026-01-01T00:00:00'' ''https://down.example''
        None True) = 0
   \<and> exit_code (devops_main_url env_all_fail ''2026-01-01T00:00:00'' ''https://down.example''
        None False) = 0"
proof -
  have "devops_analysis env_all_fail ''2026-01-01T00:00:00'' True all_fail_record None
      = Inr (generate_fallback_analysis env_all_fail ''2026-01-01T00:00:00'' all_fail_record None)"
    by (simp add: devops_analysis_def)
  with devops_exit_by_analysis [OF all_fail_run, of "''2026-01-01T00:00:00''" None True]
  have a: "exit_code (devops_main_url env_all_fail ''2026-01-01T00:00:00''
      ''https://down.example'' None True) = 0"
    by simp
  from devops_soft_failure_falls_back [OF all_fail_ai_text connection_failed_keyword]
  have "devops_analysis env_all_fail ''2026-01-01T00:00:00'' False all_fail_record None
      = Inr (generate_fallback_analysis env_all_fail ''2026-01-01T00:00:00'' all_fail_record None)" .
  with devops_exit_by_analysis [OF all_fail_run, of "''2026-01-01T00:00:00''" None False]
  have b: "exit_code (devops_main_url env_all_fail ''2026-01-01T00:00:00''
      ''https://down.example'' None False) = 0"
    by simp
  have "length (errors all_fail_record) = 4" by (simp add: all_fail_record_def)
  with all_fail_run a b show ?thesis by blast
qed

text \<open>
  The other \<open>main\<close> keeps to the claim wherever it returns (lemma \<open>cli_exit_by_errors\<close>),
  but on a plaintext target it does not return: printing the basic results reads
  \<open>connectivity_data.get('ssl_info', {}).get('success')\<close> at line 410, the exception
  leaves \<open>main\<close>, and the process ends with status 1 although \<open>errors\<close> is empty.
\<close>

lemma plain_ok_run:
  "analyze_url_connectivity env_plain_ok (normalize_url ''http://example.com'')
     = Inr (Completed plain_ok_record)"
  by (simp add: probe_defs env_plain_ok_def plain_ok_record_def normalize_url_def)

lemma cli_exit_on_plaintext_target:
  "errors plain_ok_record = []
   \<and> process_exit_code (cli_main env_plain_ok ''2026-01-01T00:00:00'' ''http://example.com''
        None True) = 1"
proof -
  have "cli_basic_results plain_ok_record = Inl none_has_no_get"
    by (simp add: cli_basic_results_def py_bind_def plain_ok_record_def)
  with plain_ok_run
  have "cli_main env_plain_ok ''2026-01-01T00:00:00'' ''http://example.com'' None True
      = Inl none_has_no_get"
    by (simp add: cli_main_def py_bind_def Let_def)
  then show ?thesis by (simp add: process_exit_code_def plain_ok_record_def)
qed

text \<open>
  A reply of status 200 whose \<open>response\<close> is \<open>null\<close>: \<open>get_ai_analysis\<close> hands the
  \<open>None\<close> on, \<open>analysis.lower()\<close> raises, and \<open>devops-analyzer.py\<close> returns 1 from its
  handler after a completed probe run, while \<open>analyze_url.py\<close> catches the exception and
  prints its fallback report.
\<close>

lemma null_response_run:
  "get_ai_analysis env_null_response https_ok_record None = JsonOther ''NoneType''"
  "cli_get_ai_analysis env_null_response u None https_ok_record = JsonOther ''NoneType''"
proof -
  from https_ok_summary obtain s where s: "url_summary https_ok_record = Inr s" by blast
  show "get_ai_analysis env_null_response https_ok_record None = JsonOther ''NoneType''"
    by (simp add: get_ai_analysis_def create_url_prompt_def py_bind_def s env_null_response_def)
  show "cli_get_ai_analysis env_null_response u None https_ok_record = JsonOther ''NoneType''"
    by (simp add: cli_get_ai_analysis_def py_bind_def s env_null_response_def)
qed

lemma null_response_exit:
  "exit_code (devops_main_url env_null_response ''2026-01-01T00:00:00'' ''https://example.com''
     None False) = 1"
  "cli_analysis env_null_response now False u None https_ok_record
     = cli_generate_fallback_analysis now u None https_ok_record"
proof -
  have run: "analyze_url_connectivity env_null_response ''https://example.com''
      = Inr (Completed https_ok_record)"
    by (simp add: probe_defs env_null_response_def env_https_ok_def https_ok_record_def)
  have "devops_analysis env_null_response ''2026-01-01T00:00:00'' False https_ok_record None
      = Inl (no_attribute ''NoneType'' ''lower'')"
    by (simp add: devops_analysis_def null_response_run Let_def lower_of_def py_bind_def)
  with devops_exit_by_analysis [OF run, of "''2026-01-01T00:00:00''" None False]
  show "exit_code (devops_main_url env_null_response ''2026-01-01T00:00:00''
      ''https://example.com'' None False) = 1"
    by simp
  show "cli_analysis env_null_response now False u None https_ok_record
     = cli_generate_fallback_analysis now u None https_ok_record"
    by (simp add: cli_analysis_def null_response_run Let_def lower_of_def py_bind_def
        try_except_def)
qed

end
